theory Spec2Isabelle
  imports Complex_Main
begin

section \<open>JavaScript values and exceptions\<close>

text \<open>
  The engine of \<^verbatim>\<open>app.js\<close> passes untyped payloads around: the options of a container,
  the configuration of an isolation request, the layers of an image. They are modelled by
  one datatype of JavaScript values. Numbers are the integer-valued ones (byte counts, ports,
  process ids, milliseconds), in the range where a JavaScript number is exact and is printed
  in plain decimal notation; \<open>JNaN\<close> is the result of a failed \<^verbatim>\<open>parseInt\<close>. An
  object is the list of its own properties in insertion order. Strings are ASCII text, one
  \<open>char\<close> per character.
\<close>

datatype jsval =
    JUndefined
  | JNull
  | JBool bool
  | JNum int
  | JNaN
  | JStr string
  | JArr "jsval list"
  | JObj "(string \<times> jsval) list"

text \<open>
  An exception is a value: \<open>Error m\<close> is \<^verbatim>\<open>new Error(m)\<close> of the source, \<open>TypeError m\<close>
  is the exception the runtime raises when a property of \<^verbatim>\<open>undefined\<close> or
  \<^verbatim>\<open>null\<close> is read or a non-function is called. A computation that may throw returns
  \<open>error + 'a\<close>, with \<open>Inl\<close> for the exception.
\<close>

datatype error = Error string | TypeError string

fun message :: "error \<Rightarrow> string" where
  "message (Error m) = m"
| "message (TypeError m) = m"

text \<open>Truthiness, as \<^verbatim>\<open>!v\<close>, \<^verbatim>\<open>a || b\<close> and \<^verbatim>\<open>if (v)\<close> test it.\<close>

fun truthy :: "jsval \<Rightarrow> bool" where
  "truthy JUndefined = False"
| "truthy JNull = False"
| "truthy (JBool b) = b"
| "truthy (JNum n) = (n \<noteq> 0)"
| "truthy JNaN = False"
| "truthy (JStr s) = (s \<noteq> [])"
| "truthy (JArr xs) = True"
| "truthy (JObj kvs) = True"

definition js_or :: "jsval \<Rightarrow> jsval \<Rightarrow> jsval" where
  "js_or a b = (if truthy a then a else b)"

text \<open>
  \<^verbatim>\<open>v.name\<close>: reading a property of \<^verbatim>\<open>undefined\<close> or \<^verbatim>\<open>null\<close> throws; an object
  gives its own property or \<^verbatim>\<open>undefined\<close>; the property names the engine reads
  (\<^verbatim>\<open>ports\<close>, \<^verbatim>\<open>env\<close>, \<^verbatim>\<open>volumes\<close>, \<^verbatim>\<open>interactive\<close>, \<^verbatim>\<open>tty\<close>, \<^verbatim>\<open>detached\<close>,
  \<^verbatim>\<open>resources\<close>) exist on no prototype, so every other value gives \<^verbatim>\<open>undefined\<close>.
\<close>

definition cannot_read :: "string \<Rightarrow> string \<Rightarrow> error" where
  "cannot_read v p =
     TypeError (''Cannot read properties of '' @ v @ '' (reading '' @ [CHR 0x27] @ p @ [CHR 0x27] @ '')'')"

fun get_prop :: "jsval \<Rightarrow> string \<Rightarrow> error + jsval" where
  "get_prop JUndefined p = Inl (cannot_read ''undefined'' p)"
| "get_prop JNull p = Inl (cannot_read ''null'' p)"
| "get_prop (JObj kvs) p = Inr (case map_of kvs p of None \<Rightarrow> JUndefined | Some v \<Rightarrow> v)"
| "get_prop v p = Inr JUndefined"

text \<open>
  A \<^verbatim>\<open>Map\<close> keeps its keys in insertion order; \<^verbatim>\<open>set\<close> on a present key replaces the
  value in place, on a new key appends.
\<close>

fun map_set :: "'k \<Rightarrow> 'v \<Rightarrow> ('k \<times> 'v) list \<Rightarrow> ('k \<times> 'v) list" where
  "map_set k v [] = [(k, v)]"
| "map_set k v (kv # kvs) = (if fst kv = k then (k, v) # kvs else kv # map_set k v kvs)"

text \<open>
  A parameter with the default \<^verbatim>\<open>{}\<close> takes it when the argument is
  \<^verbatim>\<open>undefined\<close>, not when it is \<^verbatim>\<open>null\<close>.
\<close>

definition default_object :: "jsval \<Rightarrow> jsval" where
  "default_object v = (if v = JUndefined then JObj [] else v)"

text \<open>
  A number in a template string or in JSON: decimal digits, with a sign when negative.
\<close>

fun digit_char :: "nat \<Rightarrow> char" where
  "digit_char n = ''0123456789'' ! (n mod 10)"

fun show_nat :: "nat \<Rightarrow> string" where
  "show_nat n = (if n < 10 then [digit_char n] else show_nat (n div 10) @ [digit_char n])"

declare show_nat.simps [simp del]

definition show_int :: "int \<Rightarrow> string" where
  "show_int i = (if i < 0 then CHR ''-'' # show_nat (nat (- i)) else show_nat (nat i))"

section \<open>The Rust essence: ownership handles and results\<close>

text \<open>
  \<^verbatim>\<open>rust.own(resource, lifetime = 'scoped')\<close> builds a handle with two flags. \<^verbatim>\<open>borrow()\<close>
  throws when either flag is set, otherwise sets \<^verbatim>\<open>borrowed\<close> and returns the resource;
  the model returns the resource with the updated handle. \<^verbatim>\<open>drop()\<close> returns at once on a
  dropped handle, otherwise sets \<^verbatim>\<open>dropped\<close> and clears \<^verbatim>\<open>borrowed\<close>.
\<close>

record 'a handle =
  resource :: 'a
  lifetime :: string
  borrowed :: bool
  dropped :: bool

definition own :: "'a \<Rightarrow> string \<Rightarrow> 'a handle" where
  "own r l = \<lparr>resource = r, lifetime = l, borrowed = False, dropped = False\<rparr>"

definition own_scoped :: "'a \<Rightarrow> 'a handle" where
  "own_scoped r = own r ''scoped''"

definition borrow :: "'a handle \<Rightarrow> error + ('a \<times> 'a handle)" where
  "borrow h =
     (if borrowed h \<or> dropped h
      then Inl (Error ''Cannot borrow: resource already borrowed or dropped'')
      else Inr (resource h, h\<lparr>borrowed := True\<rparr>))"

definition drop_handle :: "'a handle \<Rightarrow> 'a handle" where
  "drop_handle h = (if dropped h then h else h\<lparr>dropped := True, borrowed := False\<rparr>)"

text \<open>
  \<^verbatim>\<open>rust.result(value, error = null)\<close>: the tag is the truthiness of the error, so an
  empty message counts as no error. \<^verbatim>\<open>unwrap()\<close> throws the error of a failure.
\<close>

record 'a result =
  isOk :: bool
  isErr :: bool
  rvalue :: 'a
  rerror :: "string option"

definition err_truthy :: "string option \<Rightarrow> bool" where
  "err_truthy e = (case e of None \<Rightarrow> False | Some m \<Rightarrow> m \<noteq> [])"

definition rust_result :: "'a \<Rightarrow> string option \<Rightarrow> 'a result" where
  "rust_result v e = \<lparr>isOk = \<not> err_truthy e, isErr = err_truthy e, rvalue = v, rerror = e\<rparr>"

definition ok_result :: "'a \<Rightarrow> 'a result" where
  "ok_result v = rust_result v None"

definition unwrap :: "'a result \<Rightarrow> error + 'a" where
  "unwrap r = (if isErr r then Inl (Error (case rerror r of None \<Rightarrow> [] | Some m \<Rightarrow> m)) else Inr (rvalue r))"

section \<open>The Go essence: concurrent tasks\<close>

text \<open>
  \<^verbatim>\<open>go.concurrent(tasks)\<close> is \<^verbatim>\<open>Promise.all(tasks.map(task => go.goroutine(task)))\<close>.
  A goroutine starts its task in a \<^verbatim>\<open>setImmediate\<close> callback and settles as the task
  does: it resolves with the task's value and rejects with what the task throws. A task that
  has run is described by the moment it settles and by its outcome. The promise of
  \<^verbatim>\<open>Promise.all\<close> is fulfilled, once the last promise is, with the values in input order
  when every promise is fulfilled; otherwise it is rejected, at that moment, with the reason
  of the first promise to be rejected (the earliest one, the leftmost among equals).
\<close>

type_synonym 'a settled = "nat \<times> (error + 'a)"

definition goroutine :: "'a settled \<Rightarrow> 'a settled" where
  "goroutine t = (case snd t of Inr result \<Rightarrow> (fst t, Inr result) | Inl err \<Rightarrow> (fst t, Inl err))"

fun first_rejection :: "'a settled list \<Rightarrow> (nat \<times> error) option" where
  "first_rejection [] = None"
| "first_rejection ((t, Inr v) # ps) = first_rejection ps"
| "first_rejection ((t, Inl e) # ps) =
     (case first_rejection ps of
        None \<Rightarrow> Some (t, e)
      | Some (t', e') \<Rightarrow> if t' < t then Some (t', e') else Some (t, e))"

fun fulfilled_values :: "'a settled list \<Rightarrow> 'a list" where
  "fulfilled_values [] = []"
| "fulfilled_values ((t, Inr v) # ps) = v # fulfilled_values ps"
| "fulfilled_values ((t, Inl e) # ps) = fulfilled_values ps"

fun last_settled :: "'a settled list \<Rightarrow> nat" where
  "last_settled [] = 0"
| "last_settled ((t, r) # ps) = max t (last_settled ps)"

definition promise_all :: "'a settled list \<Rightarrow> 'a list settled" where
  "promise_all ps =
     (case first_rejection ps of
        None \<Rightarrow> (last_settled ps, Inr (fulfilled_values ps))
      | Some (t, e) \<Rightarrow> (t, Inl e))"

definition concurrent :: "'a settled list \<Rightarrow> 'a list settled" where
  "concurrent tasks = promise_all (map goroutine tasks)"

text \<open>
  The tasks the modules hand to \<^verbatim>\<open>concurrent\<close> are async functions without an
  \<^verbatim>\<open>await\<close> in their bodies: each runs to its end inside its own callback, in the order
  the callbacks were queued, and changes the state of the module on the way. \<open>run_tasks\<close>
  runs them in that order, starting at moment \<open>n\<close>; no task is cancelled when another
  one throws.
\<close>

type_synonym ('s, 'a) task = "'s \<Rightarrow> (error + 'a) \<times> 's"

fun run_tasks :: "('s, 'a) task list \<Rightarrow> nat \<Rightarrow> 's \<Rightarrow> 'a settled list \<times> 's" where
  "run_tasks [] n s = ([], s)"
| "run_tasks (task # tasks) n s =
     (let (r, s1) = task s;
          (rs, s2) = run_tasks tasks (Suc n) s1
      in ((n, r) # rs, s2))"

definition concurrent_tasks :: "('s, 'a) task list \<Rightarrow> 's \<Rightarrow> (error + 'a list) \<times> 's" where
  "concurrent_tasks tasks s = (let (ps, s') = run_tasks tasks 0 s in (snd (concurrent ps), s'))"

section \<open>The Linux essence and the isolation module\<close>

text \<open>
  \<^verbatim>\<open>linux.namespace(type)\<close> and \<^verbatim>\<open>linux.cgroup(name, limits = {})\<close> build plain
  objects. The limits of a control group are the defaults overridden by the own properties
  of the argument (\<^verbatim>\<open>{ memory: '512m', cpu: '1.0', ...limits }\<close>); the own properties
  of an array or of a string are its indexed elements. The order of the keys of the merged
  object is that of insertion here; nothing in the engine reads it.
\<close>

fun own_props :: "jsval \<Rightarrow> (string \<times> jsval) list" where
  "own_props (JObj kvs) = kvs"
| "own_props (JArr xs) = zip (map show_nat [0..<length xs]) xs"
| "own_props (JStr s) = zip (map show_nat [0..<length s]) (map (\<lambda>c. JStr [c]) s)"
| "own_props v = []"

definition spread :: "(string \<times> jsval) list \<Rightarrow> jsval \<Rightarrow> (string \<times> jsval) list" where
  "spread base v = foldl (\<lambda>acc kv. map_set (fst kv) (snd kv) acc) base (own_props v)"

record namespace =
  ns_type :: jsval
  ns_processes :: "nat list"
  ns_isolated :: bool

record cgroup =
  cg_name :: string
  cg_limits :: "(string \<times> jsval) list"
  cg_processes :: "nat list"

definition linux_namespace :: "jsval \<Rightarrow> namespace" where
  "linux_namespace type = \<lparr>ns_type = type, ns_processes = [], ns_isolated = True\<rparr>"

definition linux_cgroup :: "string \<Rightarrow> jsval \<Rightarrow> cgroup" where
  "linux_cgroup name limits =
     (let limits = default_object limits
      in \<lparr>cg_name = name,
          cg_limits = spread [(''memory'', JStr ''512m''), (''cpu'', JStr ''1.0'')] limits,
          cg_processes = []\<rparr>)"

text \<open>
  The container of the isolation module, held in an ownership handle, and the three tables
  of the module. Container identifiers and namespace names are strings.
\<close>

record iso_container =
  ic_id :: string
  ic_config :: jsval
  ic_namespaces :: "jsval list"
  ic_cgroups :: "jsval list"
  ic_filesystem :: jsval
  ic_network :: jsval
  ic_pid :: jsval

record isolation_module =
  iso_namespaces :: "(string \<times> namespace) list"
  iso_cgroups :: "(string \<times> cgroup) list"
  iso_containers :: "(string \<times> iso_container handle) list"

definition IsolationModule_new :: isolation_module where
  "IsolationModule_new = \<lparr>iso_namespaces = [], iso_cgroups = [], iso_containers = []\<rparr>"

text \<open>
  \<^verbatim>\<open>createNamespace(type, name)\<close> and \<^verbatim>\<open>createCgroup(name, limits)\<close>: both store
  the new object under the name with \<^verbatim>\<open>Map.set\<close> and return a success result; neither
  has a branch that throws or returns a failure. \<open>process_pid\<close> is \<^verbatim>\<open>process.pid\<close>.
\<close>

definition createNamespace ::
  "nat \<Rightarrow> jsval \<Rightarrow> string \<Rightarrow> isolation_module \<Rightarrow> jsval result \<times> isolation_module" where
  "createNamespace process_pid type name m =
     (let namespace = linux_namespace type;
          m1 = m\<lparr>iso_namespaces := map_set name namespace (iso_namespaces m)\<rparr>
      in (ok_result (JObj [(''namespace'', JStr name), (''type'', type),
                           (''pid'', JNum (int process_pid)), (''isolated'', JBool True)]), m1))"

definition createCgroup ::
  "string \<Rightarrow> jsval \<Rightarrow> isolation_module \<Rightarrow> jsval result \<times> isolation_module" where
  "createCgroup name limits m =
     (let cgroup = linux_cgroup name limits;
          m1 = m\<lparr>iso_cgroups := map_set name cgroup (iso_cgroups m)\<rparr>
      in (ok_result (JObj [(''cgroup'', JStr name), (''limits'', limits), (''enforced'', JBool True)]), m1))"

text \<open>
  \<^verbatim>\<open>isolateContainer(containerId, config)\<close>. The four tasks are closures; the fourth reads
  \<^verbatim>\<open>config.resources\<close> when it runs, which throws inside the task when \<^verbatim>\<open>config\<close> is
  \<^verbatim>\<open>undefined\<close> or \<^verbatim>\<open>null\<close>. The \<^verbatim>\<open>await\<close> of the concurrent call is in no
  \<^verbatim>\<open>try\<close>: a rejection leaves the function as an exception.
\<close>

definition isolationTasks ::
  "nat \<Rightarrow> string \<Rightarrow> jsval \<Rightarrow> (isolation_module, jsval result) task list" where
  "isolationTasks process_pid containerId config =
     [ (\<lambda>m. case createNamespace process_pid (JStr ''pid'') (containerId @ ''_pid'') m of
               (r, m1) \<Rightarrow> (Inr r, m1)),
       (\<lambda>m. case createNamespace process_pid (JStr ''net'') (containerId @ ''_net'') m of
               (r, m1) \<Rightarrow> (Inr r, m1)),
       (\<lambda>m. case createNamespace process_pid (JStr ''mnt'') (containerId @ ''_mnt'') m of
               (r, m1) \<Rightarrow> (Inr r, m1)),
       (\<lambda>m. case get_prop config ''resources'' of
               Inl e \<Rightarrow> (Inl e, m)
             | Inr resources \<Rightarrow>
                 (case createCgroup containerId (js_or resources (JObj [])) m of
                    (r, m1) \<Rightarrow> (Inr r, m1))) ]"

fun unwrap_all :: "'a result list \<Rightarrow> error + 'a list" where
  "unwrap_all [] = Inr []"
| "unwrap_all (r # rs) =
     (case unwrap r of
        Inl e \<Rightarrow> Inl e
      | Inr v \<Rightarrow> (case unwrap_all rs of Inl e \<Rightarrow> Inl e | Inr vs \<Rightarrow> Inr (v # vs)))"

definition isolateContainer ::
  "nat \<Rightarrow> string \<Rightarrow> jsval \<Rightarrow> isolation_module \<Rightarrow> (error + jsval result) \<times> isolation_module" where
  "isolateContainer process_pid containerId config m =
     (let containerResource =
            own \<lparr>ic_id = containerId, ic_config = config, ic_namespaces = [], ic_cgroups = [],
                 ic_filesystem = JNull, ic_network = JNull, ic_pid = JNull\<rparr> ''container_lifetime''
      in case concurrent_tasks (isolationTasks process_pid containerId config) m of
           (Inl e, m1) \<Rightarrow> (Inl e, m1)
         | (Inr results, m1) \<Rightarrow>
             (case borrow containerResource of
                Inl e \<Rightarrow> (Inl e, m1)
              | Inr (container, h1) \<Rightarrow>
                  (case unwrap_all (take 3 results) of
                     Inl e \<Rightarrow> (Inl e, m1)
                   | Inr namespaces \<Rightarrow>
                       (case drop 3 results of
                          [] \<Rightarrow> (Inl (cannot_read ''undefined'' ''unwrap''), m1)
                        | r3 # rest \<Rightarrow>
                            (case unwrap r3 of
                               Inl e \<Rightarrow> (Inl e, m1)
                             | Inr cg \<Rightarrow>
                                 (let container1 = container\<lparr>ic_namespaces := namespaces, ic_cgroups := [cg]\<rparr>;
                                      h2 = h1\<lparr>resource := container1\<rparr>;
                                      m2 = m1\<lparr>iso_containers := map_set containerId h2 (iso_containers m1)\<rparr>
                                  in (Inr (ok_result (JObj
                                        [(''containerId'', JStr containerId),
                                         (''isolated'', JBool True),
                                         (''namespaces'', JNum (int (length namespaces))),
                                         (''resources_limited'', JBool True),
                                         (''security_context'', JStr ''restricted'')])), m2)))))))"

text \<open>
  The namespace table once the three namespace tasks of \<open>isolateContainer\<close> have run.
\<close>

definition three_namespaces :: "string \<Rightarrow> isolation_module \<Rightarrow> isolation_module" where
  "three_namespaces containerId m =
     m\<lparr>iso_namespaces :=
         map_set (containerId @ ''_mnt'') (linux_namespace (JStr ''mnt''))
           (map_set (containerId @ ''_net'') (linux_namespace (JStr ''net''))
             (map_set (containerId @ ''_pid'') (linux_namespace (JStr ''pid'')) (iso_namespaces m)))\<rparr>"

section \<open>Strings, JSON and SHA-256\<close>

text \<open>
  The string methods the image module uses, on ASCII text: \<^verbatim>\<open>trim\<close> strips white space
  at both ends, \<^verbatim>\<open>split\<close> cuts at every occurrence of a one-character separator (an
  empty string gives one empty piece), \<^verbatim>\<open>join\<close> puts the separator back,
  \<^verbatim>\<open>toUpperCase\<close> maps the letters \<open>a\<close> to \<open>z\<close>.
\<close>

definition is_space :: "char \<Rightarrow> bool" where
  "is_space c = (c \<in> set [CHR '' '', CHR 0x09, CHR 0x0A, CHR 0x0B, CHR 0x0C, CHR 0x0D])"

definition trim :: "string \<Rightarrow> string" where
  "trim s = rev (dropWhile is_space (rev (dropWhile is_space s)))"

fun split_on :: "char \<Rightarrow> string \<Rightarrow> string list" where
  "split_on sep [] = [[]]"
| "split_on sep (c # cs) =
     (if c = sep then [] # split_on sep cs
      else (case split_on sep cs of
              [] \<Rightarrow> [[c]]
            | piece # pieces \<Rightarrow> (c # piece) # pieces))"

fun join :: "string \<Rightarrow> string list \<Rightarrow> string" where
  "join sep [] = []"
| "join sep [x] = x"
| "join sep (x # y # ys) = x @ sep @ join sep (y # ys)"

definition startsWith :: "string \<Rightarrow> string \<Rightarrow> bool" where
  "startsWith s p = (take (length p) s = p)"

definition upper_char :: "char \<Rightarrow> char" where
  "upper_char c =
     (case map_of (zip ''abcdefghijklmnopqrstuvwxyz'' ''ABCDEFGHIJKLMNOPQRSTUVWXYZ'') c of
        None \<Rightarrow> c
      | Some u \<Rightarrow> u)"

definition toUpperCase :: "string \<Rightarrow> string" where
  "toUpperCase s = map upper_char s"

text \<open>
  \<^verbatim>\<open>parseInt(s)\<close>: white space, a sign, then the longest run of digits, decimal or, after
  \<^verbatim>\<open>0x\<close>, hexadecimal; no digit gives \<^verbatim>\<open>NaN\<close>.
\<close>

definition digit_val :: "char \<Rightarrow> nat option" where
  "digit_val c =
     map_of (zip ''0123456789abcdefABCDEF''
               [0, 1, 2, 3, 4, 5, 6, 7, 8, 9, 10, 11, 12, 13, 14, 15, 10, 11, 12, 13, 14, 15]) c"

definition is_digit :: "nat \<Rightarrow> char \<Rightarrow> bool" where
  "is_digit radix c = (case digit_val c of None \<Rightarrow> False | Some d \<Rightarrow> d < radix)"

definition digits_val :: "nat \<Rightarrow> string \<Rightarrow> nat" where
  "digits_val radix ds = foldl (\<lambda>acc c. acc * radix + (case digit_val c of None \<Rightarrow> 0 | Some d \<Rightarrow> d)) 0 ds"

definition parseInt :: "string \<Rightarrow> jsval" where
  "parseInt s =
     (let s1 = dropWhile is_space s;
          neg = (case s1 of [] \<Rightarrow> False | c # cs \<Rightarrow> c = CHR ''-'');
          s2 = (case s1 of [] \<Rightarrow> [] | c # cs \<Rightarrow> if c = CHR ''-'' \<or> c = CHR ''+'' then cs else s1);
          hex = (take 2 s2 = ''0x'' \<or> take 2 s2 = ''0X'');
          radix = (if hex then 16 else 10);
          ds = takeWhile (is_digit radix) (if hex then drop 2 s2 else s2)
      in if ds = [] then JNaN
         else JNum (if neg then - int (digits_val radix ds) else int (digits_val radix ds)))"

text \<open>
  \<^verbatim>\<open>JSON.stringify\<close> on the values of the model: a property whose value is
  \<^verbatim>\<open>undefined\<close> is left out of an object, \<^verbatim>\<open>undefined\<close> in an array and
  \<^verbatim>\<open>NaN\<close> are written \<^verbatim>\<open>null\<close>, and strings are quoted with the escapes of JSON.
\<close>

definition hex_digit :: "nat \<Rightarrow> char" where
  "hex_digit n = ''0123456789abcdef'' ! (n mod 16)"

definition json_escape :: "char \<Rightarrow> string" where
  "json_escape c =
     (if c = CHR 0x22 then [CHR 0x5C, CHR 0x22]
      else if c = CHR 0x5C then [CHR 0x5C, CHR 0x5C]
      else if c = CHR 0x08 then [CHR 0x5C, CHR ''b'']
      else if c = CHR 0x0C then [CHR 0x5C, CHR ''f'']
      else if c = CHR 0x0A then [CHR 0x5C, CHR ''n'']
      else if c = CHR 0x0D then [CHR 0x5C, CHR ''r'']
      else if c = CHR 0x09 then [CHR 0x5C, CHR ''t'']
      else if (of_char c :: nat) < 32
        then [CHR 0x5C, CHR ''u'', CHR ''0'', CHR ''0'',
              hex_digit ((of_char c :: nat) div 16), hex_digit (of_char c :: nat)]
      else [c])"

definition json_quote :: "string \<Rightarrow> string" where
  "json_quote s = [CHR 0x22] @ concat (map json_escape s) @ [CHR 0x22]"

fun json :: "jsval \<Rightarrow> string"
  and json_elements :: "jsval list \<Rightarrow> string list"
  and json_members :: "(string \<times> jsval) list \<Rightarrow> string list" where
  "json JUndefined = ''null''"
| "json JNull = ''null''"
| "json (JBool b) = (if b then ''true'' else ''false'')"
| "json (JNum n) = show_int n"
| "json JNaN = ''null''"
| "json (JStr s) = json_quote s"
| "json (JArr xs) = ''['' @ join '','' (json_elements xs) @ '']''"
| "json (JObj kvs) = ''{'' @ join '','' (json_members kvs) @ ''}''"
| "json_elements [] = []"
| "json_elements (x # xs) = json x # json_elements xs"
| "json_members [] = []"
| "json_members (kv # kvs) =
     (if snd kv = JUndefined then json_members kvs
      else (json_quote (fst kv) @ '':'' @ json (snd kv)) # json_members kvs)"

text \<open>
  \<^verbatim>\<open>createHash('sha256').update(content).digest('hex')\<close>: SHA-256 of FIPS 180-4 on the
  bytes of the content, written as 64 lower-case hexadecimal digits. A 32-bit word is an
  integer from 0 to \<open>2\<^sup>3\<^sup>2 - 1\<close>; \<open>w32\<close> is the wrap-around of the additions. The round
  constants are the first 32 bits of the fractional parts of the cube roots of the first 64
  primes, the initial state those of the square roots of the first 8.
\<close>

unbundle bit_operations_syntax

definition w32 :: "int \<Rightarrow> int" where
  "w32 x = x mod 4294967296"

definition rotr :: "nat \<Rightarrow> int \<Rightarrow> int" where
  "rotr n x = drop_bit n x OR w32 (push_bit (32 - n) x)"

definition sha_ch :: "int \<Rightarrow> int \<Rightarrow> int \<Rightarrow> int" where
  "sha_ch x y z = (x AND y) XOR ((4294967295 - x) AND z)"

definition sha_maj :: "int \<Rightarrow> int \<Rightarrow> int \<Rightarrow> int" where
  "sha_maj x y z = (x AND y) XOR (x AND z) XOR (y AND z)"

definition big_sigma0 :: "int \<Rightarrow> int" where
  "big_sigma0 x = rotr 2 x XOR rotr 13 x XOR rotr 22 x"

definition big_sigma1 :: "int \<Rightarrow> int" where
  "big_sigma1 x = rotr 6 x XOR rotr 11 x XOR rotr 25 x"

definition small_sigma0 :: "int \<Rightarrow> int" where
  "small_sigma0 x = rotr 7 x XOR rotr 18 x XOR drop_bit 3 x"

definition small_sigma1 :: "int \<Rightarrow> int" where
  "small_sigma1 x = rotr 17 x XOR rotr 19 x XOR drop_bit 10 x"

definition sha_round_constants :: "int list" where
  "sha_round_constants =
    [1116352408, 1899447441, 3049323471, 3921009573, 961987163, 1508970993,
     2453635748, 2870763221, 3624381080, 310598401, 607225278, 1426881987,
     1925078388, 2162078206, 2614888103, 3248222580, 3835390401, 4022224774,
     264347078, 604807628, 770255983, 1249150122, 1555081692, 1996064986,
     2554220882, 2821834349, 2952996808, 3210313671, 3336571891, 3584528711,
     113926993, 338241895, 666307205, 773529912, 1294757372, 1396182291,
     1695183700, 1986661051, 2177026350, 2456956037, 2730485921, 2820302411,
     3259730800, 3345764771, 3516065817, 3600352804, 4094571909, 275423344,
     430227734, 506948616, 659060556, 883997877, 958139571, 1322822218,
     1537002063, 1747873779, 1955562222, 2024104815, 2227730452, 2361852424,
     2428436474, 2756734187, 3204031479, 3329325298]"

definition sha_initial_state :: "int list" where
  "sha_initial_state =
    [1779033703, 3144134277, 1013904242, 2773480762,
     1359893119, 2600822924, 528734635, 1541459225]"

text \<open>
  The message schedule is kept newest word first: the next word is computed from the words
  2, 7, 15 and 16 places back.
\<close>

fun sha_schedule :: "nat \<Rightarrow> int list \<Rightarrow> int list" where
  "sha_schedule 0 ws = ws"
| "sha_schedule (Suc n) ws =
     sha_schedule n (w32 (small_sigma1 (ws ! 1) + ws ! 6 + small_sigma0 (ws ! 14) + ws ! 15) # ws)"

fun sha_round :: "int list \<Rightarrow> int \<times> int \<Rightarrow> int list" where
  "sha_round [a, b, c, d, e, f, g, h] (k, w) =
     (let t1 = h + big_sigma1 e + sha_ch e f g + k + w;
          t2 = big_sigma0 a + sha_maj a b c
      in [w32 (t1 + t2), a, b, c, w32 (d + t1), e, f, g])"
| "sha_round st kw = st"

definition sha_compress :: "int list \<Rightarrow> int list \<Rightarrow> int list" where
  "sha_compress st block =
     map2 (\<lambda>x y. w32 (x + y)) st
       (foldl sha_round st (zip sha_round_constants (rev (sha_schedule 48 (rev block)))))"

fun sha_words :: "int list \<Rightarrow> int list" where
  "sha_words (a # b # c # d # rest) = (a * 16777216 + b * 65536 + c * 256 + d) # sha_words rest"
| "sha_words rest = []"

fun sha_blocks :: "nat \<Rightarrow> int list \<Rightarrow> int list list" where
  "sha_blocks 0 ws = []"
| "sha_blocks (Suc n) ws = take 16 ws # sha_blocks n (drop 16 ws)"

definition sha_pad :: "int list \<Rightarrow> int list" where
  "sha_pad msg =
     (let l = length msg;
          zeros = (119 - l mod 64) mod 64;
          bits = int (8 * l)
      in msg @ [128] @ replicate zeros 0 @ map (\<lambda>i. drop_bit (8 * (7 - i)) bits AND 255) [0..<8])"

definition sha256 :: "int list \<Rightarrow> int list" where
  "sha256 msg =
     (let ws = sha_words (sha_pad msg)
      in foldl sha_compress sha_initial_state (sha_blocks (length ws div 16) ws))"

definition hex_word :: "int \<Rightarrow> string" where
  "hex_word w = map (\<lambda>i. hex_digit (nat (drop_bit (4 * (7 - i)) w AND 15))) [0..<8]"

definition sha256_hex :: "string \<Rightarrow> string" where
  "sha256_hex s = concat (map hex_word (sha256 (map of_char s)))"

section \<open>The image module\<close>

text \<open>
  \<^verbatim>\<open>parseDockerfile(content)\<close> keeps the lines that are not blank and do not start with
  \<^verbatim>\<open>#\<close> (the test is on the line before trimming), and cuts each trimmed line at its
  spaces: the first piece, in upper case, is the command, the others joined again are the
  arguments.
\<close>

record instruction =
  command :: string
  args :: string
  original :: string

definition parse_line :: "string \<Rightarrow> instruction" where
  "parse_line line =
     (case split_on CHR '' '' (trim line) of
        [] \<Rightarrow> \<lparr>command = [], args = [], original = trim line\<rparr>
      | c # rest \<Rightarrow> \<lparr>command = toUpperCase c, args = join '' '' rest, original = trim line\<rparr>)"

definition parseDockerfile :: "string \<Rightarrow> instruction list" where
  "parseDockerfile content =
     map parse_line
       (filter (\<lambda>line. trim line \<noteq> [] \<and> \<not> startsWith line ''#'') (split_on CHR 0x0A content))"

text \<open>
  \<^verbatim>\<open>buildLayer(instruction, index, context)\<close> is a \<^verbatim>\<open>switch\<close> on the command with a
  \<^verbatim>\<open>default\<close> branch; no branch throws. A layer is an object whose first property is
  its \<^verbatim>\<open>type\<close>. The sizes of the \<^verbatim>\<open>run\<close> and \<^verbatim>\<open>copy\<close> layers are
  \<^verbatim>\<open>Math.random() * 50 * 1024 * 1024\<close> and \<^verbatim>\<open>Math.random() * 10 * 1024 * 1024\<close>:
  \<open>size_draw index\<close> is the value of that expression for the instruction at \<open>index\<close>,
  taken among the whole numbers of bytes.
\<close>

definition second :: "string list \<Rightarrow> jsval" where
  "second pieces = (case pieces of x # y # rest \<Rightarrow> JStr y | _ \<Rightarrow> JUndefined)"

definition first :: "string list \<Rightarrow> jsval" where
  "first pieces = (case pieces of x # rest \<Rightarrow> JStr x | [] \<Rightarrow> JUndefined)"

definition buildLayer :: "(nat \<Rightarrow> int) \<Rightarrow> instruction \<Rightarrow> nat \<Rightarrow> jsval" where
  "buildLayer size_draw instruction index =
     (let command = command instruction; args = args instruction;
          text = JStr (command @ '' '' @ args)
      in if command = ''FROM'' then
           JObj [(''type'', JStr ''base''), (''instruction'', text), (''baseImage'', JStr args),
                 (''size'', JNum (100 * 1024 * 1024))]
         else if command = ''RUN'' then
           JObj [(''type'', JStr ''run''), (''instruction'', text), (''command'', JStr args),
                 (''size'', JNum (size_draw index))]
         else if command = ''COPY'' \<or> command = ''ADD'' then
           JObj [(''type'', JStr ''copy''), (''instruction'', text),
                 (''source'', first (split_on CHR '' '' args)),
                 (''destination'', second (split_on CHR '' '' args)),
                 (''size'', JNum (size_draw index))]
         else if command = ''ENV'' then
           JObj [(''type'', JStr ''env''), (''instruction'', text),
                 (''variable'', first (split_on CHR ''='' args)),
                 (''value'', js_or (second (split_on CHR ''='' args)) (JStr [])),
                 (''size'', JNum 1024)]
         else if command = ''EXPOSE'' then
           JObj [(''type'', JStr ''expose''), (''instruction'', text), (''port'', parseInt args),
                 (''size'', JNum 1024)]
         else if command = ''CMD'' \<or> command = ''ENTRYPOINT'' then
           JObj [(''type'', JStr ''entrypoint''), (''instruction'', text), (''command'', JStr args),
                 (''size'', JNum 1024)]
         else
           JObj [(''type'', JStr ''unknown''), (''instruction'', text), (''size'', JNum 1024)])"

text \<open>
  The loop of \<^verbatim>\<open>buildImage\<close> builds the layers one after the other, in the order of the
  instructions, and pushes each onto \<^verbatim>\<open>context.layers\<close>.
\<close>

fun build_layers :: "(nat \<Rightarrow> int) \<Rightarrow> instruction list \<Rightarrow> nat \<Rightarrow> jsval list \<Rightarrow> jsval list" where
  "build_layers size_draw [] i layers = layers"
| "build_layers size_draw (instruction # rest) i layers =
     build_layers size_draw rest (Suc i) (layers @ [buildLayer size_draw instruction i])"

text \<open>
  \<^verbatim>\<open>generateImageId(name, layers)\<close> hashes \<^verbatim>\<open>`${name}:${JSON.stringify(layers)}:${Date.now()}`\<close>;
  \<open>now\<close> is the value of \<^verbatim>\<open>Date.now()\<close>.
\<close>

definition image_id_content :: "string \<Rightarrow> jsval list \<Rightarrow> int \<Rightarrow> string" where
  "image_id_content name layers now = name @ '':'' @ json (JArr layers) @ '':'' @ show_int now"

definition generateImageId :: "string \<Rightarrow> jsval list \<Rightarrow> int \<Rightarrow> string" where
  "generateImageId name layers now = sha256_hex (image_id_content name layers now)"

record image =
  image_id :: string
  image_name :: string
  image_tag :: string
  image_layers :: "jsval list"
  image_metadata :: jsval
  image_size :: int

record image_module =
  images :: "(string \<times> image) list"
  layers :: "(string \<times> jsval) list"
  registries :: "(string \<times> jsval) list"

definition ImageModule_new :: image_module where
  "ImageModule_new =
     \<lparr>images = [], layers = [],
      registries = [(''docker.io'', JObj [(''url'', JStr ''https://registry.hub.docker.com''),
                                         (''auth'', JNull)])]\<rparr>"

text \<open>
  What \<^verbatim>\<open>buildImage\<close> takes from outside the engine: the file system behind
  \<^verbatim>\<open>fs.readFile\<close>, the clock, the platform and the random sizes.
\<close>

record build_env =
  readFile :: "string \<Rightarrow> error + string"
  created :: string
  arch :: string
  platform :: string
  size_draw :: "nat \<Rightarrow> int"
  now :: int

definition layer_size :: "jsval \<Rightarrow> int" where
  "layer_size layer = (case get_prop layer ''size'' of Inr (JNum n) \<Rightarrow> n | _ \<Rightarrow> 0)"

text \<open>
  \<^verbatim>\<open>buildImage(name, dockerfile, contextPath)\<close>: the whole body is one \<^verbatim>\<open>try\<close> whose
  \<^verbatim>\<open>catch\<close> returns \<^verbatim>\<open>rust.result(null, error.message)\<close>; the image is stored by the
  last statement but one of the \<^verbatim>\<open>try\<close>, after the loop.
\<close>

definition buildImage ::
  "build_env \<Rightarrow> string \<Rightarrow> string \<Rightarrow> image_module \<Rightarrow> jsval result \<times> image_module" where
  "buildImage env name dockerfile m =
     (case readFile env dockerfile of
        Inl err \<Rightarrow> (rust_result JNull (Some (message err)), m)
      | Inr dockerfileContent \<Rightarrow>
          (let instructions = parseDockerfile dockerfileContent;
               metadata = JObj [(''created'', JStr (created env)), (''author'', JStr ''docker-nexus''),
                                (''architecture'', JStr (arch env)), (''os'', JStr (platform env))];
               buildContext = own (name, instructions, [] :: jsval list, metadata) ''build_lifetime''
           in case borrow buildContext of
                Inl err \<Rightarrow> (rust_result JNull (Some (message err)), m)
              | Inr (context, h) \<Rightarrow>
                  (let context_layers = build_layers (size_draw env) instructions 0 [];
                       imageId = generateImageId name context_layers (now env);
                       image = \<lparr>image_id = imageId, image_name = name, image_tag = ''latest'',
                                image_layers = context_layers, image_metadata = metadata,
                                image_size = foldl (\<lambda>sum layer. sum + layer_size layer) 0 context_layers\<rparr>;
                       m1 = m\<lparr>images := map_set (name @ '':latest'') image (images m)\<rparr>
                   in (ok_result (JObj [(''imageId'', JStr imageId), (''name'', JStr name),
                                        (''tag'', JStr ''latest''),
                                        (''layers'', JNum (int (length context_layers))),
                                        (''size'', JNum (image_size image))]), m1))))"

text \<open>
  Three notions the properties of the image module are stated with: the \<^verbatim>\<open>type\<close>
  property of a layer, the kind the specification assigns to a verb, and the instructions
  whose layer takes a random size.
\<close>

definition layer_type :: "jsval \<Rightarrow> jsval" where
  "layer_type layer = (case get_prop layer ''type'' of Inl e \<Rightarrow> JUndefined | Inr v \<Rightarrow> v)"

definition layer_kind :: "string \<Rightarrow> string" where
  "layer_kind verb =
     (if verb = ''FROM'' then ''base''
      else if verb = ''RUN'' then ''run''
      else if verb = ''COPY'' \<or> verb = ''ADD'' then ''copy''
      else if verb = ''ENV'' then ''env''
      else if verb = ''EXPOSE'' then ''expose''
      else if verb = ''CMD'' \<or> verb = ''ENTRYPOINT'' then ''entrypoint''
      else ''unknown'')"

definition draws_size :: "instruction \<Rightarrow> bool" where
  "draws_size instruction =
     (command instruction = ''RUN'' \<or> command instruction = ''COPY'' \<or> command instruction = ''ADD'')"

section \<open>The runtime module\<close>

text \<open>
  The record of a container, as \<^verbatim>\<open>runContainer\<close> builds it, with the two properties it
  adds later (\<^verbatim>\<open>started\<close>, \<^verbatim>\<open>error\<close>). The module keeps three tables. Its
  constructor sets no \<^verbatim>\<open>goEssence\<close> property (the constructor of the isolation module
  does): in a module as constructed \<^verbatim>\<open>this.goEssence\<close> is \<^verbatim>\<open>undefined\<close>, here
  \<open>None\<close>.
\<close>

record container =
  c_id :: string
  c_image :: jsval
  c_command :: jsval
  c_status :: string
  c_created :: string
  c_ports :: jsval
  c_environment :: jsval
  c_volumes :: jsval
  c_interactive :: jsval
  c_tty :: jsval
  c_detached :: bool
  c_pid :: jsval
  c_exitCode :: jsval
  c_logs :: "jsval list"
  c_started :: "string option"
  c_error :: "string option"

datatype go_essence = Go

record runtime_module =
  rt_containers :: "(string \<times> container handle) list"
  rt_processes :: "(string \<times> jsval) list"
  rt_networks :: "(string \<times> jsval) list"
  rt_goEssence :: "go_essence option"

definition RuntimeModule_new :: runtime_module where
  "RuntimeModule_new = \<lparr>rt_containers = [], rt_processes = [], rt_networks = [], rt_goEssence = None\<rparr>"

text \<open>
  What a run takes from outside the engine: the random identifier of
  \<^verbatim>\<open>generateContainerId\<close>, the clock, the last byte of the address
  (\<^verbatim>\<open>Math.floor(Math.random() * 254) + 2\<close>), the process id
  (\<^verbatim>\<open>Math.floor(Math.random() * 30000) + 1000\<close>), and what \<^verbatim>\<open>attachToContainer\<close>
  (terminal input and output) throws, if anything.
\<close>

record run_env =
  generated_id :: string
  created_iso :: string
  started_iso :: string
  ip_draw :: nat
  pid_draw :: nat
  started_ms :: int
  attach_error :: "error option"

definition js_prop :: "jsval \<Rightarrow> string \<Rightarrow> jsval" where
  "js_prop v p = (case get_prop v p of Inl e \<Rightarrow> JUndefined | Inr x \<Rightarrow> x)"

definition setupContainerNetwork ::
  "run_env \<Rightarrow> string \<Rightarrow> jsval \<Rightarrow> runtime_module \<Rightarrow> (error + jsval) \<times> runtime_module" where
  "setupContainerNetwork env containerId options m =
     (case get_prop options ''ports'' of
        Inl e \<Rightarrow> (Inl e, m)
      | Inr ports \<Rightarrow>
          (let network = JObj [(''containerId'', JStr containerId), (''bridge'', JStr ''docker-nexus0''),
                               (''ip'', JStr (''172.17.0.'' @ show_nat (ip_draw env))),
                               (''ports'', js_or ports (JArr []))]
           in (Inr network, m\<lparr>rt_networks := map_set containerId network (rt_networks m)\<rparr>)))"

text \<open>
  \<^verbatim>\<open>setupContainerVolumes\<close> maps \<^verbatim>\<open>volume.split(':')\<close> over
  \<^verbatim>\<open>options.volumes || []\<close>: it throws when that value is not an array (it has no
  \<^verbatim>\<open>map\<close>) and when an element is not a string (it has no \<^verbatim>\<open>split\<close>). The
  call of \<^verbatim>\<open>split\<close> is the right-hand side of the array destructuring
  \<^verbatim>\<open>const [host, container] = volume.split(':')\<close>, hence the message for an element
  that is a number, a boolean, an array or an object.
\<close>

definition mount_volume :: "jsval \<Rightarrow> error + jsval" where
  "mount_volume volume =
     (case volume of
        JStr s \<Rightarrow> Inr (JObj [(''host'', first (split_on CHR '':'' s)),
                            (''container'', second (split_on CHR '':'' s)),
                            (''mounted'', JBool True)])
      | JUndefined \<Rightarrow> Inl (cannot_read ''undefined'' ''split'')
      | JNull \<Rightarrow> Inl (cannot_read ''null'' ''split'')
      | _ \<Rightarrow> Inl (TypeError ''volume.split is not a function or its return value is not iterable''))"

fun mount_volumes :: "jsval list \<Rightarrow> error + jsval list" where
  "mount_volumes [] = Inr []"
| "mount_volumes (volume # rest) =
     (case mount_volume volume of
        Inl e \<Rightarrow> Inl e
      | Inr v \<Rightarrow> (case mount_volumes rest of Inl e \<Rightarrow> Inl e | Inr vs \<Rightarrow> Inr (v # vs)))"

definition setupContainerVolumes :: "string \<Rightarrow> jsval \<Rightarrow> error + jsval" where
  "setupContainerVolumes containerId options =
     (case get_prop options ''volumes'' of
        Inl e \<Rightarrow> Inl e
      | Inr volumes \<Rightarrow>
          (case js_or volumes (JArr []) of
             JArr vs \<Rightarrow> (case mount_volumes vs of Inl e \<Rightarrow> Inl e | Inr mounted \<Rightarrow> Inr (JArr mounted))
           | _ \<Rightarrow> Inl (TypeError ''(options.volumes || []).map is not a function'')))"

text \<open>
  \<^verbatim>\<open>startContainerProcess(container)\<close> writes the process id into the container, stores
  the process and arms the four timers of \<^verbatim>\<open>simulateContainerLogs\<close>, which fire after the
  call has returned.
\<close>

definition startContainerProcess ::
  "run_env \<Rightarrow> container \<Rightarrow> runtime_module \<Rightarrow> jsval \<times> container \<times> runtime_module" where
  "startContainerProcess env container m =
     (let mockProcess = JObj [(''pid'', JNum (int (pid_draw env))), (''command'', c_command container),
                              (''started'', JNum (started_ms env)), (''status'', JStr ''running'')];
          container1 = container\<lparr>c_pid := JNum (int (pid_draw env))\<rparr>
      in (mockProcess, container1,
          m\<lparr>rt_processes := map_set (c_id container) mockProcess (rt_processes m)\<rparr>))"

definition startupTasks ::
  "run_env \<Rightarrow> string \<Rightarrow> jsval \<Rightarrow> (runtime_module \<times> container, jsval) task list" where
  "startupTasks env containerId options =
     [ (\<lambda>s. case setupContainerNetwork env containerId options (fst s) of
               (r, m1) \<Rightarrow> (r, (m1, snd s))),
       (\<lambda>s. (setupContainerVolumes containerId options, s)),
       (\<lambda>s. case startContainerProcess env (snd s) (fst s) of
               (r, container1, m1) \<Rightarrow> (Inr r, (m1, container1))) ]"

text \<open>
  \<^verbatim>\<open>runContainer(imageName, command, options = {})\<close>. The record is built and borrowed
  before the \<^verbatim>\<open>try\<close>; the reads of \<^verbatim>\<open>options\<close> there throw when it is
  \<^verbatim>\<open>null\<close>. Inside the \<^verbatim>\<open>try\<close>, \<^verbatim>\<open>this.goEssence.concurrent\<close> is read first. The
  borrowed reference is the record held by the handle: the model writes every change of
  the record back into the handle, and into the table once the handle is stored there.
  When a task throws, the tasks queued after it still run; they write fields and tables
  that the \<^verbatim>\<open>catch\<close> block neither reads nor writes, so the model lets them run first.
  The result is the outcome of the call, the handle of the call with everything the call
  and its tasks wrote to it (\<open>None\<close> when the call throws before building it) and the
  module.
\<close>

definition new_container :: "run_env \<Rightarrow> jsval \<Rightarrow> jsval \<Rightarrow> jsval \<Rightarrow> container" where
  "new_container env imageName cmd options =
     \<lparr>c_id = generated_id env, c_image = imageName, c_command = js_or cmd (JStr ''/bin/sh''),
      c_status = ''created'', c_created = created_iso env,
      c_ports = js_or (js_prop options ''ports'') (JArr []),
      c_environment = js_or (js_prop options ''env'') (JArr []),
      c_volumes = js_or (js_prop options ''volumes'') (JArr []),
      c_interactive = js_or (js_prop options ''interactive'') (JBool False),
      c_tty = js_or (js_prop options ''tty'') (JBool False),
      c_detached = (js_prop options ''detached'' \<noteq> JBool False),
      c_pid = JNull, c_exitCode = JNull, c_logs = [],
      c_started = None, c_error = None\<rparr>"

definition run_failed ::
  "error \<Rightarrow> container \<Rightarrow> container handle \<Rightarrow> container handle" where
  "run_failed err container h = h\<lparr>resource := container\<lparr>c_status := ''failed'', c_error := Some (message err)\<rparr>\<rparr>"

definition runContainer ::
  "run_env \<Rightarrow> jsval \<Rightarrow> jsval \<Rightarrow> jsval \<Rightarrow> runtime_module
     \<Rightarrow> (error + jsval result) \<times> container handle option \<times> runtime_module" where
  "runContainer env imageName cmd options0 m =
     (let containerId = generated_id env;
          options = default_object options0
      in case get_prop options ''ports'' of
           Inl e \<Rightarrow> (Inl e, None, m)
         | Inr ports \<Rightarrow>
             (let containerResource = own_scoped (new_container env imageName cmd options)
              in case borrow containerResource of
                   Inl e \<Rightarrow> (Inl e, Some containerResource, m)
                 | Inr (container, h) \<Rightarrow>
                     (case (case rt_goEssence m of
                              None \<Rightarrow> (Inl (cannot_read ''undefined'' ''concurrent''), (m, container))
                            | Some go \<Rightarrow> concurrent_tasks (startupTasks env containerId options) (m, container)) of
                        (Inl err, (m1, container1)) \<Rightarrow>
                          (Inr (rust_result JNull (Some (message err))), Some (run_failed err container1 h), m1)
                      | (Inr results, (m1, container1)) \<Rightarrow>
                          (let container2 = container1\<lparr>c_status := ''running'', c_started := Some (started_iso env)\<rparr>;
                               h2 = h\<lparr>resource := container2\<rparr>;
                               m2 = m1\<lparr>rt_containers := map_set containerId h2 (rt_containers m1)\<rparr>
                           in case (if truthy (js_prop options ''interactive'') then attach_error env else None) of
                                Some err \<Rightarrow>
                                  (Inr (rust_result JNull (Some (message err))),
                                   Some (run_failed err container2 h),
                                   m2\<lparr>rt_containers :=
                                         map_set containerId (run_failed err container2 h) (rt_containers m2)\<rparr>)
                              | None \<Rightarrow>
                                  (Inr (ok_result (JObj [(''containerId'', JStr containerId),
                                                         (''status'', JStr ''running''),
                                                         (''image'', imageName),
                                                         (''command'', c_command container2),
                                                         (''ports'', c_ports container2)])),
                                   Some h2, m2)))))"

text \<open>
  \<^verbatim>\<open>listContainers(showAll = false)\<close> borrows every stored handle in turn, which sets
  the flag of each handle it gets through, and stops at the first borrow that throws.
\<close>

definition summary :: "container \<Rightarrow> jsval" where
  "summary container =
     JObj [(''containerId'', JStr (take 12 (c_id container))), (''image'', c_image container),
           (''command'', c_command container), (''created'', JStr (c_created container)),
           (''status'', JStr (c_status container)), (''ports'', c_ports container),
           (''names'', JArr [JStr (''nexus_'' @ take 8 (c_id container))])]"

fun borrow_all ::
  "(string \<times> container handle) list \<Rightarrow> (error + jsval list) \<times> (string \<times> container handle) list" where
  "borrow_all [] = (Inr [], [])"
| "borrow_all (kh # rest) =
     (case borrow (snd kh) of
        Inl e \<Rightarrow> (Inl e, kh # rest)
      | Inr (container, h1) \<Rightarrow>
          (case borrow_all rest of
             (Inl e, rest1) \<Rightarrow> (Inl e, (fst kh, h1) # rest1)
           | (Inr summaries, rest1) \<Rightarrow> (Inr (summary container # summaries), (fst kh, h1) # rest1)))"

definition listContainers ::
  "jsval \<Rightarrow> runtime_module \<Rightarrow> (error + jsval result) \<times> runtime_module" where
  "listContainers showAll0 m =
     (let showAll = (if showAll0 = JUndefined then JBool False else showAll0)
      in case borrow_all (rt_containers m) of
           (Inl e, handles) \<Rightarrow> (Inl e, m\<lparr>rt_containers := handles\<rparr>)
         | (Inr containers, handles) \<Rightarrow>
             (Inr (ok_result (JArr (if truthy showAll then containers
                                    else filter (\<lambda>c. js_prop c ''status'' = JStr ''running'') containers))),
              m\<lparr>rt_containers := handles\<rparr>))"

definition getContainerLogs ::
  "jsval \<Rightarrow> runtime_module \<Rightarrow> (error + jsval result) \<times> runtime_module" where
  "getContainerLogs containerId m =
     (case (case containerId of JStr k \<Rightarrow> map_option (Pair k) (map_of (rt_containers m) k) | _ \<Rightarrow> None) of
        None \<Rightarrow> (Inr (rust_result JNull (Some ''Container not found'')), m)
      | Some (k, container) \<Rightarrow>
          (case borrow container of
             Inl e \<Rightarrow> (Inl e, m)
           | Inr (containerData, h1) \<Rightarrow>
               (Inr (ok_result (JObj [(''containerId'', containerId), (''logs'', JArr (c_logs containerData))])),
                m\<lparr>rt_containers := map_set k h1 (rt_containers m)\<rparr>)))"

text \<open>
  \<^verbatim>\<open>_handleOperation\<close> of the runtime module. The methods \<^verbatim>\<open>startContainer\<close>,
  \<^verbatim>\<open>stopContainer\<close> and \<^verbatim>\<open>execInContainer\<close> are defined nowhere: their cases read the
  payload and then throw.
\<close>

definition runtime_handleOperation ::
  "run_env \<Rightarrow> string \<Rightarrow> jsval \<Rightarrow> runtime_module \<Rightarrow> (error + jsval result) \<times> runtime_module" where
  "runtime_handleOperation env operation data m =
     (if operation = ''run_container'' then
        (case get_prop data ''image'' of
           Inl e \<Rightarrow> (Inl e, m)
         | Inr imageName \<Rightarrow>
             (case runContainer env imageName (js_prop data ''command'') (js_prop data ''options'') m of
                (r, h, m1) \<Rightarrow> (r, m1)))
      else if operation = ''start_container'' then
        (case get_prop data ''containerId'' of
           Inl e \<Rightarrow> (Inl e, m)
         | Inr containerId \<Rightarrow> (Inl (TypeError ''this.startContainer is not a function''), m))
      else if operation = ''stop_container'' then
        (case get_prop data ''containerId'' of
           Inl e \<Rightarrow> (Inl e, m)
         | Inr containerId \<Rightarrow> (Inl (TypeError ''this.stopContainer is not a function''), m))
      else if operation = ''list_containers'' then
        (case get_prop data ''all'' of
           Inl e \<Rightarrow> (Inl e, m)
         | Inr showAll \<Rightarrow> listContainers showAll m)
      else if operation = ''exec_container'' then
        (case get_prop data ''containerId'' of
           Inl e \<Rightarrow> (Inl e, m)
         | Inr containerId \<Rightarrow> (Inl (TypeError ''this.execInContainer is not a function''), m))
      else if operation = ''logs_container'' then
        (case get_prop data ''containerId'' of
           Inl e \<Rightarrow> (Inl e, m)
         | Inr containerId \<Rightarrow> getContainerLogs containerId m)
      else (Inl (Error (''Unknown runtime operation: '' @ operation)), m))"

text \<open>
  What can happen to a runtime module over time: an operation is handled, or a timer of
  \<^verbatim>\<open>simulateContainerLogs\<close> fires and appends an entry to the logs of a stored container.
\<close>

datatype runtime_event = Operation run_env string jsval | LogTimer string jsval

definition push_log :: "string \<Rightarrow> jsval \<Rightarrow> runtime_module \<Rightarrow> runtime_module" where
  "push_log containerId logEntry m =
     m\<lparr>rt_containers :=
         map (\<lambda>kh. if fst kh = containerId
                    then (fst kh, (snd kh)\<lparr>resource := (resource (snd kh))\<lparr>c_logs := c_logs (resource (snd kh)) @ [logEntry]\<rparr>\<rparr>)
                    else kh)
           (rt_containers m)\<rparr>"

fun apply_event :: "runtime_module \<Rightarrow> runtime_event \<Rightarrow> runtime_module" where
  "apply_event m (Operation env operation data) = snd (runtime_handleOperation env operation data m)"
| "apply_event m (LogTimer containerId logEntry) = push_log containerId logEntry m"

definition runtime_events :: "runtime_module \<Rightarrow> runtime_event list \<Rightarrow> runtime_module" where
  "runtime_events m events = foldl apply_event m events"

definition held :: "string \<Rightarrow> runtime_module \<Rightarrow> bool" where
  "held containerId m =
     (case map_of (rt_containers m) containerId of
        None \<Rightarrow> False
      | Some h \<Rightarrow> borrowed h \<and> \<not> dropped h)"

text \<open>
  The module and the container once the network task and the process task of
  \<open>runContainer\<close> have run.
\<close>

definition after_startup ::
  "run_env \<Rightarrow> jsval \<Rightarrow> runtime_module \<times> container \<Rightarrow> runtime_module \<times> container" where
  "after_startup env options s =
     (case startContainerProcess env (snd s)
             (snd (setupContainerNetwork env (generated_id env) options (fst s))) of
        (r, container1, m1) \<Rightarrow> (m1, container1))"

text \<open>
  The handle \<open>runContainer\<close> stores when the three startup tasks have succeeded.
\<close>

definition started_handle :: "run_env \<Rightarrow> jsval \<Rightarrow> jsval \<Rightarrow> jsval \<Rightarrow> runtime_module \<Rightarrow> container handle" where
  "started_handle env imageName cmd options m =
     (own_scoped (new_container env imageName cmd (default_object options)))
       \<lparr>borrowed := True,
        resource := (snd (after_startup env (default_object options)
                        (m, new_container env imageName cmd (default_object options))))
                     \<lparr>c_status := ''running'', c_started := Some (started_iso env)\<rparr>\<rparr>"

section \<open>Inputs of the examples\<close>

text \<open>
  An environment of a run, and a runtime module in which the \<^verbatim>\<open>goEssence\<close> property has
  been set, as the constructor of the isolation module sets it.
\<close>

definition example_run :: run_env where
  "example_run =
     \<lparr>generated_id = ''9f86d081884c7d659a2feaa0c55ad015'', created_iso = ''2026-01-01T00:00:00.000Z'',
      started_iso = ''2026-01-01T00:00:00.005Z'', ip_draw = 17, pid_draw = 4242,
      started_ms = 1767225600005, attach_error = None\<rparr>"

definition runtime_with_go :: runtime_module where
  "runtime_with_go = RuntimeModule_new\<lparr>rt_goEssence := Some Go\<rparr>"

section \<open>Modules and the engine\<close>

text \<open>
  \<^verbatim>\<open>DockerModule\<close> is the base class of the five modules: a name, the counters
  \<^verbatim>\<open>stats\<close>, the flag \<^verbatim>\<open>isActive\<close>, and the state the subclass adds. Its
  \<^verbatim>\<open>process(operation, data, options)\<close> throws at once in an inactive module; otherwise it
  counts the operation, calls \<^verbatim>\<open>_handleOperation\<close> of the subclass, and counts and throws
  again what that throws. The handler of the subclass is a parameter here. The events the
  module emits have no listener in the engine and are left out, as is the unused cache.
\<close>

record module_stats =
  stats_operations :: nat
  stats_errors :: nat
  stats_lastOperation :: "string option"

record 's docker_module =
  mod_name :: string
  mod_stats :: module_stats
  mod_isActive :: bool
  mod_state :: 's

definition DockerModule_new :: "string \<Rightarrow> 's \<Rightarrow> 's docker_module" where
  "DockerModule_new name s =
     \<lparr>mod_name = name,
      mod_stats = \<lparr>stats_operations = 0, stats_errors = 0, stats_lastOperation = None\<rparr>,
      mod_isActive = True, mod_state = s\<rparr>"

type_synonym ('s, 'r) handler = "string \<Rightarrow> jsval \<Rightarrow> jsval \<Rightarrow> 's \<Rightarrow> (error + 'r) \<times> 's"

definition process ::
  "('s, 'r) handler \<Rightarrow> string \<Rightarrow> jsval \<Rightarrow> jsval \<Rightarrow> 's docker_module \<Rightarrow> (error + 'r) \<times> 's docker_module" where
  "process handleOperation operation data options md =
     (if \<not> mod_isActive md then (Inl (Error (''Module '' @ mod_name md @ '' is not active'')), md)
      else
        (let md1 = md\<lparr>mod_stats := (mod_stats md)\<lparr>stats_operations := stats_operations (mod_stats md) + 1,
                                                  stats_lastOperation := Some operation\<rparr>\<rparr>
         in case handleOperation operation data options (mod_state md1) of
              (Inr result, s1) \<Rightarrow> (Inr result, md1\<lparr>mod_state := s1\<rparr>)
            | (Inl err, s1) \<Rightarrow>
                (Inl err, md1\<lparr>mod_state := s1,
                              mod_stats := (mod_stats md1)\<lparr>stats_errors := stats_errors (mod_stats md1) + 1\<rparr>\<rparr>)))"

text \<open>
  The engine holds the five modules under the keys of \<^verbatim>\<open>this.modules\<close> and its own
  metrics; \<^verbatim>\<open>metrics.modules\<close> does not exist until \<open>updateStats\<close> first runs. The
  average is the exact quotient.
\<close>

record module_metrics =
  met_operations :: nat
  met_totalTime :: int
  met_avgTime :: rat

record 's engine =
  eng_modules :: "(string \<times> 's docker_module) list"
  metrics_commands :: nat
  metrics_uptime :: int
  metrics_errors :: nat
  metrics_modules :: "(string \<times> module_metrics) list option"

definition DockerNexusEngine_new :: "(string \<Rightarrow> 's) \<Rightarrow> int \<Rightarrow> 's engine" where
  "DockerNexusEngine_new initial started =
     \<lparr>eng_modules = [(''isolation'', DockerModule_new ''Isolation'' (initial ''isolation'')),
                     (''image'', DockerModule_new ''Image'' (initial ''image'')),
                     (''runtime'', DockerModule_new ''Runtime'' (initial ''runtime'')),
                     (''network'', DockerModule_new ''Network'' (initial ''network'')),
                     (''storage'', DockerModule_new ''Storage'' (initial ''storage''))],
      metrics_commands = 0, metrics_uptime = started, metrics_errors = 0, metrics_modules = None\<rparr>"

text \<open>
  The routing table of \<^verbatim>\<open>selectModule\<close>, as the object literal lists it. Three
  operations are routed to \<^verbatim>\<open>webserver\<close>, which is not a key of \<^verbatim>\<open>this.modules\<close>.
  A name the literal does not list selects no module: it gives \<^verbatim>\<open>undefined\<close> in the
  table or, for a property every object inherits, a value that is no key of
  \<^verbatim>\<open>this.modules\<close>.
\<close>

definition operationMap :: "(string \<times> string) list" where
  "operationMap =
     [(''build_image'', ''image''), (''pull_image'', ''image''), (''push_image'', ''image''),
      (''list_images'', ''image''), (''remove_image'', ''image''), (''inspect_image'', ''image''),
      (''run_container'', ''runtime''), (''start_container'', ''runtime''), (''stop_container'', ''runtime''),
      (''list_containers'', ''runtime''), (''exec_container'', ''runtime''), (''logs_container'', ''runtime''),
      (''create_network'', ''network''), (''list_networks'', ''network''), (''connect_container'', ''network''),
      (''create_volume'', ''storage''), (''list_volumes'', ''storage''), (''remove_volume'', ''storage''),
      (''create_volume'', ''storage''), (''list_volumes'', ''storage''), (''remove_volume'', ''storage''),
      (''isolate_container'', ''isolation''), (''setup_filesystem'', ''isolation''),
      (''start_server'', ''webserver''), (''stop_server'', ''webserver''), (''health_check_web'', ''webserver'')]"

definition selectModule :: "'s engine \<Rightarrow> string \<Rightarrow> (string \<times> 's docker_module) option" where
  "selectModule e operation =
     (case map_of operationMap operation of
        None \<Rightarrow> None
      | Some moduleName \<Rightarrow> map_option (Pair moduleName) (map_of (eng_modules e) moduleName))"

definition updateStats :: "string \<Rightarrow> string \<Rightarrow> int \<Rightarrow> 's engine \<Rightarrow> 's engine" where
  "updateStats moduleName operation executionTime e =
     (let modules = (case metrics_modules e of None \<Rightarrow> [] | Some table \<Rightarrow> table);
          moduleStats = (case map_of modules moduleName of
                           None \<Rightarrow> \<lparr>met_operations = 0, met_totalTime = 0, met_avgTime = 0\<rparr>
                         | Some stats \<Rightarrow> stats);
          operations = met_operations moduleStats + 1;
          totalTime = met_totalTime moduleStats + executionTime
      in e\<lparr>metrics_modules :=
             Some (map_set moduleName
                     \<lparr>met_operations = operations, met_totalTime = totalTime,
                      met_avgTime = of_int totalTime / of_nat operations\<rparr> modules)\<rparr>)"

text \<open>
  \<^verbatim>\<open>execute(operation, data, options = {})\<close>. The whole routing is inside a \<^verbatim>\<open>try\<close>
  whose \<^verbatim>\<open>catch\<close> counts an error and returns a failure outcome; \<open>startTime\<close> and
  \<open>endTime\<close> are the two readings of the clock.
\<close>

record 'r outcome =
  success :: bool
  out_module :: "string option"
  out_operation :: string
  out_result :: "'r option"
  out_error :: "string option"
  executionTime :: int

definition execute_failed :: "error \<Rightarrow> string \<Rightarrow> int \<Rightarrow> 's engine \<Rightarrow> 'r outcome \<times> 's engine" where
  "execute_failed err operation elapsed e =
     (\<lparr>success = False, out_module = None, out_operation = operation, out_result = None,
       out_error = Some (message err), executionTime = elapsed\<rparr>,
      e\<lparr>metrics_errors := metrics_errors e + 1\<rparr>)"

definition execute ::
  "(string \<Rightarrow> ('s, 'r) handler) \<Rightarrow> int \<Rightarrow> int \<Rightarrow> string \<Rightarrow> jsval \<Rightarrow> jsval \<Rightarrow> 's engine
     \<Rightarrow> 'r outcome \<times> 's engine" where
  "execute handlers startTime endTime operation data options0 e =
     (let options = default_object options0;
          e1 = e\<lparr>metrics_commands := metrics_commands e + 1\<rparr>
      in case selectModule e1 operation of
           None \<Rightarrow>
             execute_failed (Error (''No module found for operation: '' @ operation)) operation
               (endTime - startTime) e1
         | Some (key, md) \<Rightarrow>
             (case process (handlers key) operation data options md of
                (Inl err, md1) \<Rightarrow>
                  execute_failed err operation (endTime - startTime)
                    (e1\<lparr>eng_modules := map_set key md1 (eng_modules e1)\<rparr>)
              | (Inr result, md1) \<Rightarrow>
                  (let e2 = e1\<lparr>eng_modules := map_set key md1 (eng_modules e1)\<rparr>;
                       e3 = updateStats (mod_name md1) operation (endTime - startTime) e2
                   in (\<lparr>success = True, out_module = Some (mod_name md1), out_operation = operation,
                        out_result = Some result, out_error = None,
                        executionTime = endTime - startTime\<rparr>, e3))))"

text \<open>
  The environment of a build of the one-line build file \<^verbatim>\<open>RUN make\<close> at the fixed
  timestamp 7, in which the random size drawn for a layer is \<open>drawn\<close>.
\<close>

definition replay_env :: "int \<Rightarrow> build_env" where
  "replay_env drawn =
     \<lparr>readFile = (\<lambda>path. Inr ''RUN make''), created = ''2026-01-01T00:00:00.000Z'',
      arch = ''x64'', platform = ''linux'', size_draw = (\<lambda>index. drawn), now = 7\<rparr>"

section \<open>Ownership handles: properties\<close>

lemma borrow_own: "borrow (own r l) = Inr (r, (own r l)\<lparr>borrowed := True\<rparr>)"
  by (simp add: borrow_def own_def)

lemma drop_handle_dropped: "dropped (drop_handle h)"
  by (simp add: drop_handle_def)

text \<open>
  Claim C6, as the code has it. A borrow of a borrowed handle and a borrow of a dropped
  handle both throw, and they throw the same error: the handle has one error for the two
  situations. Dropping a dropped handle changes nothing, and a drop that follows a borrow
  does not make the handle borrowable again.
\<close>

theorem handle_borrow_drop_discipline:
  "(borrowed h \<or> dropped h \<longrightarrow>
      borrow h = Inl (Error ''Cannot borrow: resource already borrowed or dropped''))
   \<and> (\<not> borrowed h \<and> \<not> dropped h \<longrightarrow>
      (\<exists>h'. borrow h = Inr (resource h, h') \<and> borrowed h' \<and>
            borrow h' = Inl (Error ''Cannot borrow: resource already borrowed or dropped'')))
   \<and> borrow (drop_handle h) = Inl (Error ''Cannot borrow: resource already borrowed or dropped'')
   \<and> drop_handle (drop_handle h) = drop_handle h"
  by (simp add: borrow_def drop_handle_def)

theorem handle_borrow_drop_discipline_witness:
  "borrow (own (7::nat) ''scoped'') = Inr (7, (own 7 ''scoped'')\<lparr>borrowed := True\<rparr>)
   \<and> borrow ((own (7::nat) ''scoped'')\<lparr>borrowed := True\<rparr>)
       = Inl (Error ''Cannot borrow: resource already borrowed or dropped'')
   \<and> borrow (drop_handle (own (7::nat) ''scoped''))
       = Inl (Error ''Cannot borrow: resource already borrowed or dropped'')
   \<and> drop_handle (drop_handle (own (7::nat) ''scoped'')) = drop_handle (own 7 ''scoped'')"
  using handle_borrow_drop_discipline [of "(own (7::nat) ''scoped'')\<lparr>borrowed := True\<rparr>"]
        handle_borrow_drop_discipline [of "own (7::nat) ''scoped''"]
  by (simp add: borrow_def own_def)

text \<open>
  The claim as the specification words it gives the two failures different errors,
  \<^verbatim>\<open>AlreadyBorrowed\<close> and \<^verbatim>\<open>UseAfterDrop\<close>. On the code the second borrow of a live
  handle and the borrow of a dropped one cannot be told apart.
\<close>

theorem handle_errors_not_distinguished:
  "borrow ((own (7::nat) ''scoped'')\<lparr>borrowed := True\<rparr>) = borrow (drop_handle (own (7::nat) ''scoped''))
   \<and> borrow (drop_handle (own (7::nat) ''scoped''))
       = Inl (Error ''Cannot borrow: resource already borrowed or dropped'')"
  by (simp add: borrow_def drop_handle_def own_def)


section \<open>Concurrent tasks: properties\<close>

lemma goroutine_id: "goroutine t = t"
  by (cases t) (simp add: goroutine_def split: sum.split)

lemma map_goroutine: "map goroutine ps = ps"
  by (induction ps) (simp_all add: goroutine_id)

lemma first_rejection_None_iff: "first_rejection ps = None \<longleftrightarrow> (\<forall>p \<in> set ps. \<exists>v. snd p = Inr v)"
proof (induction ps rule: first_rejection.induct)
  case 1
  show ?case by simp
next
  case (2 t v ps)
  then show ?case by simp
next
  case (3 t e ps)
  show ?case by (simp split: option.split)
qed

lemma fulfilled_values_aligned:
  "first_rejection ps = None \<Longrightarrow> map snd ps = map Inr (fulfilled_values ps)"
proof (induction ps rule: first_rejection.induct)
  case 1
  show ?case by simp
next
  case (2 t v ps)
  then show ?case by simp
next
  case (3 t e ps)
  then show ?case by (simp split: option.splits prod.splits if_splits)
qed

lemma first_rejection_Some:
  "first_rejection ps = Some (t, e) \<Longrightarrow>
     (t, Inl e) \<in> set ps \<and> (\<forall>t' e'. (t', Inl e') \<in> set ps \<longrightarrow> t \<le> t')"
proof (induction ps arbitrary: t e rule: first_rejection.induct)
  case 1
  then show ?case by simp
next
  case (2 t0 v ps)
  then show ?case by simp
next
  case (3 t0 e0 ps)
  show ?case
  proof (cases "first_rejection ps")
    case None
    then have "\<forall>p \<in> set ps. \<exists>v. snd p = Inr v"
      by (simp add: first_rejection_None_iff)
    then have "\<forall>t' e'. (t', Inl e') \<notin> set ps" by force
    with None "3.prems" show ?thesis by auto
  next
    case (Some p)
    obtain t1 e1 where p: "p = (t1, e1)" by (cases p)
    from "3.IH" Some p
    have ih: "(t1, Inl e1) \<in> set ps \<and> (\<forall>t' e'. (t', Inl e') \<in> set ps \<longrightarrow> t1 \<le> t')"
      by simp
    show ?thesis
    proof (cases "t1 < t0")
      case True
      with Some p "3.prems" have "t = t1" "e = e1" by simp_all
      with ih True show ?thesis by auto
    next
      case False
      with Some p "3.prems" have "t = t0" "e = e0" by simp_all
      with ih False show ?thesis by fastforce
    qed
  qed
qed

lemma last_settled_ge: "(t, r) \<in> set ps \<Longrightarrow> t \<le> last_settled ps"
  by (induction ps rule: last_settled.induct) auto

text \<open>
  Claim C1, as the code has it. When every task succeeds the call settles when the last
  task has, with one value per task, the \<open>i\<close>-th value being that of the \<open>i\<close>-th task
  whatever the order of completion. When a task fails the call is rejected with the error of
  the first task to fail, at the moment that task fails: it returns no result list.
\<close>

theorem concurrent_all_or_first_failure:
  "((\<forall>p \<in> set tasks. \<exists>v. snd p = Inr v) \<longrightarrow>
      (\<exists>vs. concurrent tasks = (last_settled tasks, Inr vs) \<and> length vs = length tasks
          \<and> map snd tasks = map Inr vs \<and> (\<forall>p \<in> set tasks. fst p \<le> last_settled tasks)))
   \<and> ((\<exists>p \<in> set tasks. \<exists>e. snd p = Inl e) \<longrightarrow>
      (\<exists>t e. concurrent tasks = (t, Inl e) \<and> (t, Inl e) \<in> set tasks
          \<and> (\<forall>t' e'. (t', Inl e') \<in> set tasks \<longrightarrow> t \<le> t')))"
proof (intro conjI impI)
  assume ok: "\<forall>p \<in> set tasks. \<exists>v. snd p = Inr v"
  then have none: "first_rejection tasks = None"
    by (simp add: first_rejection_None_iff)
  have al: "map snd tasks = map Inr (fulfilled_values tasks)"
    by (rule fulfilled_values_aligned [OF none])
  have len: "length (fulfilled_values tasks) = length tasks"
    using arg_cong [OF al, of length] by simp
  have "concurrent tasks = (last_settled tasks, Inr (fulfilled_values tasks))"
    by (simp add: concurrent_def promise_all_def map_goroutine none)
  moreover have "\<forall>p \<in> set tasks. fst p \<le> last_settled tasks"
    using last_settled_ge by fastforce
  ultimately show "\<exists>vs. concurrent tasks = (last_settled tasks, Inr vs) \<and> length vs = length tasks
      \<and> map snd tasks = map Inr vs \<and> (\<forall>p \<in> set tasks. fst p \<le> last_settled tasks)"
    using al len by blast
next
  assume "\<exists>p \<in> set tasks. \<exists>e. snd p = Inl e"
  then have "first_rejection tasks \<noteq> None"
    unfolding first_rejection_None_iff by force
  then obtain t e where some: "first_rejection tasks = Some (t, e)" by auto
  have "concurrent tasks = (t, Inl e)"
    by (simp add: concurrent_def promise_all_def map_goroutine some)
  with first_rejection_Some [OF some]
  show "\<exists>t e. concurrent tasks = (t, Inl e) \<and> (t, Inl e) \<in> set tasks
      \<and> (\<forall>t' e'. (t', Inl e') \<in> set tasks \<longrightarrow> t \<le> t')"
    by blast
qed

theorem concurrent_all_or_first_failure_witness:
  "concurrent [(3, Inr (10::nat)), (1, Inr 20), (2, Inr 30)] = (3, Inr [10, 20, 30])
   \<and> concurrent [(3, Inr (10::nat)), (1, Inl (Error ''net down'')), (2, Inl (Error ''late''))]
       = (1, Inl (Error ''net down''))"
  using concurrent_all_or_first_failure [of "[(3, Inr (10::nat)), (1, Inr 20), (2, Inr 30)]"]
        concurrent_all_or_first_failure
          [of "[(3, Inr (10::nat)), (1, Inl (Error ''net down'')), (2, Inl (Error ''late''))]"]
  by (simp add: concurrent_def promise_all_def goroutine_def)

text \<open>
  The claim as the specification words it: the call waits for every task and returns a
  list of three results. With the second of three tasks failing at moment 1 and the others
  succeeding at moments 3 and 2, the call is rejected at moment 1 and the caller gets the
  error alone.
\<close>

theorem concurrent_short_circuits:
  "concurrent [(3, Inr (10::nat)), (1, Inl (Error ''net down'')), (2, Inr 30)]
     = (1, Inl (Error ''net down''))
   \<and> last_settled [(3, Inr (10::nat)), (1, Inl (Error ''net down'')), (2, Inr 30)] = 3"
  by (simp add: concurrent_def promise_all_def goroutine_def)

section \<open>The isolation module: properties\<close>

lemma map_of_map_set: "map_of (map_set k v kvs) = (map_of kvs)(k \<mapsto> v)"
  by (induction kvs) (auto simp: fun_eq_iff)

lemma fst_set_map_set: "fst ` set (map_set k v kvs) = insert k (fst ` set kvs)"
  by (induction kvs) auto

lemma get_prop_fails_iff: "(\<exists>e. get_prop v p = Inl e) \<longleftrightarrow> v = JUndefined \<or> v = JNull"
  by (cases v) simp_all

text \<open>
  Claim C8, as the code has it. \<open>createNamespace\<close> has no failure: it returns a success
  result for every type, name and table, and afterwards the name is bound to a fresh
  namespace of the given type, whatever it was bound to before; the other names keep their
  namespaces and no name is lost.
\<close>

theorem createNamespace_always_rebinds:
  "isOk (fst (createNamespace pid type name m))
   \<and> \<not> isErr (fst (createNamespace pid type name m))
   \<and> map_of (iso_namespaces (snd (createNamespace pid type name m))) name = Some (linux_namespace type)
   \<and> (\<forall>n. n \<noteq> name \<longrightarrow>
        map_of (iso_namespaces (snd (createNamespace pid type name m))) n = map_of (iso_namespaces m) n)
   \<and> fst ` set (iso_namespaces (snd (createNamespace pid type name m)))
        = insert name (fst ` set (iso_namespaces m))"
  by (simp add: createNamespace_def ok_result_def rust_result_def err_truthy_def Let_def
      map_of_map_set fst_set_map_set)

theorem createNamespace_always_rebinds_witness:
  "isOk (fst (createNamespace 42 (JStr ''net'') ''db''
            \<lparr>iso_namespaces = [(''db'', linux_namespace (JStr ''pid''))], iso_cgroups = [], iso_containers = []\<rparr>))
   \<and> map_of (iso_namespaces (snd (createNamespace 42 (JStr ''net'') ''db''
            \<lparr>iso_namespaces = [(''db'', linux_namespace (JStr ''pid''))], iso_cgroups = [], iso_containers = []\<rparr>)))
         ''db'' = Some (linux_namespace (JStr ''net''))"
  using createNamespace_always_rebinds [of 42 "JStr ''net''" "''db''"
      "\<lparr>iso_namespaces = [(''db'', linux_namespace (JStr ''pid''))], iso_cgroups = [], iso_containers = []\<rparr>"]
  by simp

text \<open>
  The claim as the specification words it: a second \<open>createNamespace\<close> under an allocated
  name fails. On the code the second call under the name \<open>web\<close> succeeds and the
  \<open>pid\<close> namespace first stored there is replaced by the \<open>net\<close> one.
\<close>

theorem createNamespace_duplicate_replaces:
  "isOk (fst (createNamespace 42 (JStr ''net'') ''web''
            (snd (createNamespace 42 (JStr ''pid'') ''web'' IsolationModule_new))))
   \<and> iso_namespaces (snd (createNamespace 42 (JStr ''pid'') ''web'' IsolationModule_new))
        = [(''web'', \<lparr>ns_type = JStr ''pid'', ns_processes = [], ns_isolated = True\<rparr>)]
   \<and> iso_namespaces (snd (createNamespace 42 (JStr ''net'') ''web''
            (snd (createNamespace 42 (JStr ''pid'') ''web'' IsolationModule_new))))
        = [(''web'', \<lparr>ns_type = JStr ''net'', ns_processes = [], ns_isolated = True\<rparr>)]"
  by (simp add: createNamespace_def IsolationModule_new_def linux_namespace_def ok_result_def
      rust_result_def err_truthy_def)

lemma isolationTasks_run:
  "concurrent_tasks (isolationTasks pid cid config) m =
     (case get_prop config ''resources'' of
        Inl e \<Rightarrow> (Inl e, three_namespaces cid m)
      | Inr resources \<Rightarrow>
          (Inr [fst (createNamespace pid (JStr ''pid'') (cid @ ''_pid'') m),
                fst (createNamespace pid (JStr ''net'') (cid @ ''_net'') m),
                fst (createNamespace pid (JStr ''mnt'') (cid @ ''_mnt'') m),
                fst (createCgroup cid (js_or resources (JObj [])) m)],
           snd (createCgroup cid (js_or resources (JObj [])) (three_namespaces cid m))))"
  by (simp add: concurrent_tasks_def isolationTasks_def concurrent_def promise_all_def
      goroutine_def createNamespace_def createCgroup_def three_namespaces_def Let_def
      split: sum.split)

lemma isolateContainer_fail:
  "get_prop config ''resources'' = Inl e \<Longrightarrow>
     isolateContainer pid cid config m = (Inl e, three_namespaces cid m)"
  by (simp add: isolateContainer_def isolationTasks_run)

lemma isolateContainer_ok:
  "get_prop config ''resources'' = Inr r \<Longrightarrow>
     \<exists>res m'. isolateContainer pid cid config m = (Inr res, m') \<and> isOk res"
  by (simp add: isolateContainer_def isolationTasks_run borrow_def own_def unwrap_def
      createNamespace_def createCgroup_def ok_result_def rust_result_def err_truthy_def Let_def)

lemma three_namespaces_lookup:
  "map_of (iso_namespaces (three_namespaces cid m)) (cid @ ''_pid'') = Some (linux_namespace (JStr ''pid''))"
  "map_of (iso_namespaces (three_namespaces cid m)) (cid @ ''_net'') = Some (linux_namespace (JStr ''net''))"
  "map_of (iso_namespaces (three_namespaces cid m)) (cid @ ''_mnt'') = Some (linux_namespace (JStr ''mnt''))"
  by (simp_all add: three_namespaces_def map_of_map_set)

lemma three_namespaces_rest:
  "iso_cgroups (three_namespaces cid m) = iso_cgroups m"
  "iso_containers (three_namespaces cid m) = iso_containers m"
  by (simp_all add: three_namespaces_def)

text \<open>
  Claim C3, as the code has it. A provisioning task of \<open>isolateContainer\<close> fails exactly
  when the configuration is \<^verbatim>\<open>undefined\<close> or \<^verbatim>\<open>null\<close>: the control group task then
  throws on \<^verbatim>\<open>config.resources\<close>. The call ends with that exception and nothing else:
  no result of the three namespace tasks reaches the caller. The three namespaces stay in
  the table (there is no rollback), no control group is stored and no container is
  registered. With any other configuration the call returns a success result.
\<close>

theorem isolateContainer_failure_throws_without_rollback:
  "(config = JUndefined \<or> config = JNull \<longrightarrow>
      (\<exists>msg m'. isolateContainer pid cid config m = (Inl (TypeError msg), m')
         \<and> get_prop config ''resources'' = Inl (TypeError msg)
         \<and> map_of (iso_namespaces m') (cid @ ''_pid'') = Some (linux_namespace (JStr ''pid''))
         \<and> map_of (iso_namespaces m') (cid @ ''_net'') = Some (linux_namespace (JStr ''net''))
         \<and> map_of (iso_namespaces m') (cid @ ''_mnt'') = Some (linux_namespace (JStr ''mnt''))
         \<and> iso_cgroups m' = iso_cgroups m
         \<and> iso_containers m' = iso_containers m))
   \<and> (config \<noteq> JUndefined \<and> config \<noteq> JNull \<longrightarrow>
      (\<exists>res m'. isolateContainer pid cid config m = (Inr res, m') \<and> isOk res))"
proof (intro conjI impI)
  assume "config = JUndefined \<or> config = JNull"
  then obtain msg where g: "get_prop config ''resources'' = Inl (TypeError msg)"
    by (auto simp: cannot_read_def)
  have "isolateContainer pid cid config m = (Inl (TypeError msg), three_namespaces cid m)"
    by (rule isolateContainer_fail [OF g])
  with g show "\<exists>msg m'. isolateContainer pid cid config m = (Inl (TypeError msg), m')
         \<and> get_prop config ''resources'' = Inl (TypeError msg)
         \<and> map_of (iso_namespaces m') (cid @ ''_pid'') = Some (linux_namespace (JStr ''pid''))
         \<and> map_of (iso_namespaces m') (cid @ ''_net'') = Some (linux_namespace (JStr ''net''))
         \<and> map_of (iso_namespaces m') (cid @ ''_mnt'') = Some (linux_namespace (JStr ''mnt''))
         \<and> iso_cgroups m' = iso_cgroups m
         \<and> iso_containers m' = iso_containers m"
    using three_namespaces_lookup [of cid m] three_namespaces_rest [of cid m] by blast
next
  assume "config \<noteq> JUndefined \<and> config \<noteq> JNull"
  then have "\<not> (\<exists>e. get_prop config ''resources'' = Inl e)"
    by (simp add: get_prop_fails_iff)
  then obtain r where "get_prop config ''resources'' = Inr r"
    by (cases "get_prop config ''resources''") auto
  then show "\<exists>res m'. isolateContainer pid cid config m = (Inr res, m') \<and> isOk res"
    by (rule isolateContainer_ok)
qed

theorem isolateContainer_failure_throws_without_rollback_witness:
  "isolateContainer 42 ''c1'' JUndefined IsolationModule_new
     = (Inl (TypeError (''Cannot read properties of undefined (reading '' @ [CHR 0x27] @ ''resources'' @ [CHR 0x27] @ '')'')),
        \<lparr>iso_namespaces = [(''c1_pid'', linux_namespace (JStr ''pid'')),
                            (''c1_net'', linux_namespace (JStr ''net'')),
                            (''c1_mnt'', linux_namespace (JStr ''mnt''))],
          iso_cgroups = [], iso_containers = []\<rparr>)
   \<and> isOk (projr (fst (isolateContainer 42 ''c1'' (JObj [(''resources'', JObj [])]) IsolationModule_new)))"
  using isolateContainer_failure_throws_without_rollback [of JUndefined 42 "''c1''" IsolationModule_new]
        isolateContainer_failure_throws_without_rollback
          [of "JObj [(''resources'', JObj [])]" 42 "''c1''" IsolationModule_new]
  by (auto simp: isolateContainer_fail three_namespaces_def IsolationModule_new_def cannot_read_def)

text \<open>
  The claim as the specification words it: the operation fails with
  \<^verbatim>\<open>PartialIsolationFailure\<close> and still returns the results of the tasks that succeeded.
  With \<^verbatim>\<open>config = null\<close> the three namespace tasks succeed and the control group task
  fails; the call ends with the exception of that task, which carries no result.
\<close>

theorem isolateContainer_failure_returns_no_results:
  "fst (isolateContainer 42 ''c1'' JNull IsolationModule_new)
     = Inl (TypeError (''Cannot read properties of null (reading '' @ [CHR 0x27] @ ''resources'' @ [CHR 0x27] @ '')''))
   \<and> map fst (iso_namespaces (snd (isolateContainer 42 ''c1'' JNull IsolationModule_new)))
        = [''c1_pid'', ''c1_net'', ''c1_mnt'']"
  by (simp add: isolateContainer_fail three_namespaces_def IsolationModule_new_def cannot_read_def)

section \<open>The image module: properties\<close>

lemma buildLayer_type: "layer_type (buildLayer d ins i) = JStr (layer_kind (command ins))"
  by (simp add: buildLayer_def layer_type_def layer_kind_def Let_def)

lemma buildLayer_draw:
  "(draws_size ins \<Longrightarrow> d1 i = d2 i) \<Longrightarrow> buildLayer d1 ins i = buildLayer d2 ins i"
  by (auto simp: buildLayer_def draws_size_def Let_def)

lemma build_layers_append:
  "build_layers d instrs i acc = acc @ build_layers d instrs i []"
proof (induction instrs arbitrary: i acc)
  case Nil
  show ?case by simp
next
  case (Cons x xs)
  show ?case
    using Cons.IH [of "Suc i" "acc @ [buildLayer d x i]"] Cons.IH [of "Suc i" "[buildLayer d x i]"]
    by simp
qed

lemma build_layers_Cons:
  "build_layers d (x # xs) i [] = buildLayer d x i # build_layers d xs (Suc i) []"
  using build_layers_append [of d xs "Suc i" "[buildLayer d x i]"] by simp

lemma build_layers_length: "length (build_layers d instrs i []) = length instrs"
  by (induction instrs arbitrary: i) (simp_all add: build_layers_Cons del: build_layers.simps(2))

lemma build_layers_types:
  "map layer_type (build_layers d instrs i []) = map (\<lambda>ins. JStr (layer_kind (command ins))) instrs"
  by (induction instrs arbitrary: i)
     (simp_all add: build_layers_Cons buildLayer_type del: build_layers.simps(2))

lemma build_layers_draws:
  "(\<forall>j < length instrs. draws_size (instrs ! j) \<longrightarrow> d1 (i + j) = d2 (i + j)) \<Longrightarrow>
     build_layers d1 instrs i [] = build_layers d2 instrs i []"
proof (induction instrs arbitrary: i)
  case Nil
  show ?case by simp
next
  case (Cons x xs)
  have hd: "buildLayer d1 x i = buildLayer d2 x i"
    using Cons.prems by (intro buildLayer_draw) force
  have "\<forall>j < length xs. draws_size (xs ! j) \<longrightarrow> d1 (Suc i + j) = d2 (Suc i + j)"
    using Cons.prems by fastforce
  then have "build_layers d1 xs (Suc i) [] = build_layers d2 xs (Suc i) []"
    by (rule Cons.IH)
  with hd show ?case by (simp add: build_layers_Cons del: build_layers.simps(2))
qed

lemma digit_char_inj: "digit_char a = digit_char b \<Longrightarrow> a mod 10 = b mod 10"
proof -
  assume h: "digit_char a = digit_char b"
  have d: "distinct ''0123456789''" by simp
  have "a mod 10 < length ''0123456789''" "b mod 10 < length ''0123456789''" by simp_all
  with d h show ?thesis
    using nth_eq_iff_index_eq [of "''0123456789''" "a mod 10" "b mod 10"] by simp
qed

lemma digit_char_in: "digit_char a \<in> set ''0123456789''"
proof -
  have "a mod 10 < length ''0123456789''" by simp
  then have "''0123456789'' ! (a mod 10) \<in> set ''0123456789''" by (rule nth_mem)
  then show ?thesis by simp
qed

lemma show_nat_nonempty: "show_nat n \<noteq> []"
  by (subst show_nat.simps) simp

lemma show_nat_digits: "set (show_nat n) \<subseteq> set ''0123456789''"
proof (induction n rule: show_nat.induct)
  case (1 n)
  show ?case
  proof (cases "n < 10")
    case True
    then show ?thesis using digit_char_in [of n] by (subst show_nat.simps) simp
  next
    case False
    then show ?thesis using 1 digit_char_in [of n] by (subst show_nat.simps) simp
  qed
qed

lemma show_nat_inj: "show_nat a = show_nat b \<Longrightarrow> a = b"
proof (induction a arbitrary: b rule: show_nat.induct)
  case (1 a)
  show ?case
  proof (cases "a < 10")
    case a: True
    show ?thesis
    proof (cases "b < 10")
      case True
      from "1.prems" a True have "digit_char a = digit_char b"
        by (subst (asm) show_nat.simps, subst (asm) (2) show_nat.simps) simp
      from digit_char_inj [OF this] a True show ?thesis by simp
    next
      case False
      from "1.prems" a False have "[digit_char a] = show_nat (b div 10) @ [digit_char b]"
        by (subst (asm) show_nat.simps, subst (asm) (2) show_nat.simps) simp
      then show ?thesis using show_nat_nonempty [of "b div 10"] by simp
    qed
  next
    case a: False
    show ?thesis
    proof (cases "b < 10")
      case True
      from "1.prems" a True have "show_nat (a div 10) @ [digit_char a] = [digit_char b]"
        by (subst (asm) show_nat.simps, subst (asm) (2) show_nat.simps) simp
      then show ?thesis using show_nat_nonempty [of "a div 10"] by simp
    next
      case False
      from "1.prems" a False
      have "show_nat (a div 10) @ [digit_char a] = show_nat (b div 10) @ [digit_char b]"
        by (subst (asm) show_nat.simps, subst (asm) (2) show_nat.simps) simp
      then have e: "show_nat (a div 10) = show_nat (b div 10)" "digit_char a = digit_char b"
        by simp_all
      from "1.IH" [OF a e(1)] have "a div 10 = b div 10" .
      moreover from digit_char_inj [OF e(2)] have "a mod 10 = b mod 10" .
      ultimately show ?thesis by (metis div_mult_mod_eq)
    qed
  qed
qed

lemma show_int_inj: "show_int a = show_int b \<Longrightarrow> a = b"
proof -
  assume h: "show_int a = show_int b"
  have nd: "\<And>n. hd (show_nat n) \<noteq> CHR ''-''"
  proof -
    fix n
    have "hd (show_nat n) \<in> set (show_nat n)" using show_nat_nonempty by simp
    with show_nat_digits [of n] show "hd (show_nat n) \<noteq> CHR ''-''" by auto
  qed
  show ?thesis
  proof (cases "a < 0")
    case a: True
    show ?thesis
    proof (cases "b < 0")
      case True
      with a h have "show_nat (nat (- a)) = show_nat (nat (- b))" by (simp add: show_int_def)
      from show_nat_inj [OF this] a True show ?thesis by simp
    next
      case False
      with a h have "CHR ''-'' # show_nat (nat (- a)) = show_nat (nat b)" by (simp add: show_int_def)
      then have "hd (show_nat (nat b)) = CHR ''-''" by (metis list.sel(1))
      with nd show ?thesis by blast
    qed
  next
    case a: False
    show ?thesis
    proof (cases "b < 0")
      case True
      with a h have "show_nat (nat a) = CHR ''-'' # show_nat (nat (- b))" by (simp add: show_int_def)
      then have "hd (show_nat (nat a)) = CHR ''-''" by (metis list.sel(1))
      with nd show ?thesis by blast
    next
      case False
      with a h have "show_nat (nat a) = show_nat (nat b)" by (simp add: show_int_def)
      from show_nat_inj [OF this] a False show ?thesis by simp
    qed
  qed
qed

lemma show_int_no_colon: "CHR '':'' \<notin> set (show_int i)"
  using show_nat_digits [of "nat i"] show_nat_digits [of "nat (- i)"]
  by (auto simp: show_int_def)

lemma after_last_colon:
  assumes "CHR '':'' \<notin> set d1" "CHR '':'' \<notin> set d2" "p1 @ '':'' @ d1 = p2 @ '':'' @ d2"
  shows "d1 = d2"
proof -
  have r: "\<And>p d. CHR '':'' \<notin> set d \<Longrightarrow>
      takeWhile (\<lambda>c. c \<noteq> CHR '':'') (rev (p @ '':'' @ d)) = rev d"
    by (auto simp: takeWhile_tail)
  have "rev d1 = takeWhile (\<lambda>c. c \<noteq> CHR '':'') (rev (p1 @ '':'' @ d1))"
    using r [OF assms(1)] by simp
  also have "\<dots> = takeWhile (\<lambda>c. c \<noteq> CHR '':'') (rev (p2 @ '':'' @ d2))"
    using assms(3) by simp
  also have "\<dots> = rev d2" using r [OF assms(2)] by simp
  finally show ?thesis by simp
qed

lemma image_id_content_timestamp:
  "image_id_content n1 l1 t1 = image_id_content n2 l2 t2 \<Longrightarrow> t1 = t2"
proof -
  assume "image_id_content n1 l1 t1 = image_id_content n2 l2 t2"
  then have "(n1 @ '':'' @ json (JArr l1)) @ '':'' @ show_int t1
           = (n2 @ '':'' @ json (JArr l2)) @ '':'' @ show_int t2"
    by (simp add: image_id_content_def)
  from after_last_colon [OF show_int_no_colon show_int_no_colon this]
  show ?thesis by (rule show_int_inj)
qed

lemma parse_example:
  "parseDockerfile (''FROM alpine'' @ [CHR 0x0A] @ ''RUN apk add curl'' @ [CHR 0x0A] @ ''EXPOSE 8080'')
     = [\<lparr>command = ''FROM'', args = ''alpine'', original = ''FROM alpine''\<rparr>,
        \<lparr>command = ''RUN'', args = ''apk add curl'', original = ''RUN apk add curl''\<rparr>,
        \<lparr>command = ''EXPOSE'', args = ''8080'', original = ''EXPOSE 8080''\<rparr>]"
  by code_simp

lemma buildImage_read_failure:
  "readFile env dockerfile = Inl err \<Longrightarrow>
     buildImage env name dockerfile m = (rust_result JNull (Some (message err)), m)"
  by (simp add: buildImage_def)

lemma buildImage_read_success:
  "readFile env dockerfile = Inr content \<Longrightarrow>
     isOk (fst (buildImage env name dockerfile m))
     \<and> \<not> isErr (fst (buildImage env name dockerfile m))
     \<and> (\<exists>img. map_of (images (snd (buildImage env name dockerfile m))) (name @ '':latest'') = Some img
            \<and> image_layers img = build_layers (size_draw env) (parseDockerfile content) 0 []
            \<and> image_id img = generateImageId name (image_layers img) (now env))"
  by (simp add: buildImage_def borrow_def own_def ok_result_def rust_result_def err_truthy_def
      Let_def map_of_map_set)

lemma buildImage_result_depends:
  "readFile env1 f = readFile env2 f \<Longrightarrow> now env1 = now env2 \<Longrightarrow> size_draw env1 = size_draw env2 \<Longrightarrow>
     fst (buildImage env1 name f m1) = fst (buildImage env2 name f m2)"
  by (cases "readFile env2 f") (simp_all add: buildImage_def borrow_def own_def Let_def)

text \<open>
  Claim C9. The loop of the build makes one layer per instruction, in order, and the type
  of each layer is the kind of its verb; the Dockerfile of the claim gives the kinds
  \<open>base\<close>, \<open>run\<close>, \<open>expose\<close>; a verb outside the eight known ones gives a layer of type
  \<open>unknown\<close>; and a build whose file can be read always succeeds and stores these layers.
\<close>

theorem build_one_layer_per_instruction:
  "length (build_layers d instrs 0 []) = length instrs
   \<and> map layer_type (build_layers d instrs 0 []) = map (\<lambda>ins. JStr (layer_kind (command ins))) instrs
   \<and> map layer_type (build_layers d
          (parseDockerfile (''FROM alpine'' @ [CHR 0x0A] @ ''RUN apk add curl'' @ [CHR 0x0A] @ ''EXPOSE 8080'')) 0 [])
        = [JStr ''base'', JStr ''run'', JStr ''expose'']
   \<and> (command ins \<notin> {''FROM'', ''RUN'', ''COPY'', ''ADD'', ''ENV'', ''EXPOSE'', ''CMD'', ''ENTRYPOINT''} \<longrightarrow>
        layer_type (buildLayer d ins i) = JStr ''unknown'')
   \<and> (readFile env dockerfile = Inr content \<longrightarrow>
        isOk (fst (buildImage env name dockerfile m))
        \<and> (\<exists>img. map_of (images (snd (buildImage env name dockerfile m))) (name @ '':latest'') = Some img
              \<and> image_layers img = build_layers (size_draw env) (parseDockerfile content) 0 []))"
proof (intro conjI impI)
  show "length (build_layers d instrs 0 []) = length instrs"
    by (rule build_layers_length)
  show "map layer_type (build_layers d instrs 0 []) = map (\<lambda>ins. JStr (layer_kind (command ins))) instrs"
    by (rule build_layers_types)
  show "map layer_type (build_layers d
          (parseDockerfile (''FROM alpine'' @ [CHR 0x0A] @ ''RUN apk add curl'' @ [CHR 0x0A] @ ''EXPOSE 8080'')) 0 [])
        = [JStr ''base'', JStr ''run'', JStr ''expose'']"
    by (simp only: build_layers_types parse_example) (simp add: layer_kind_def)
next
  assume "command ins \<notin> {''FROM'', ''RUN'', ''COPY'', ''ADD'', ''ENV'', ''EXPOSE'', ''CMD'', ''ENTRYPOINT''}"
  then show "layer_type (buildLayer d ins i) = JStr ''unknown''"
    by (simp add: buildLayer_type layer_kind_def)
next
  assume r: "readFile env dockerfile = Inr content"
  from buildImage_read_success [OF r, of name m]
  show "isOk (fst (buildImage env name dockerfile m))" by blast
  from buildImage_read_success [OF r, of name m]
  show "\<exists>img. map_of (images (snd (buildImage env name dockerfile m))) (name @ '':latest'') = Some img
              \<and> image_layers img = build_layers (size_draw env) (parseDockerfile content) 0 []"
    by blast
qed

theorem build_one_layer_per_instruction_witness:
  "layer_type (buildLayer (\<lambda>index. 0) \<lparr>command = ''VOLUME'', args = ''/data'', original = ''VOLUME /data''\<rparr> 3)
     = JStr ''unknown''
   \<and> isOk (fst (buildImage
        \<lparr>readFile = (\<lambda>path. Inr ''VOLUME /data''), created = ''2026-01-01T00:00:00.000Z'',
          arch = ''x64'', platform = ''linux'', size_draw = (\<lambda>index. 0), now = 7\<rparr>
        ''app'' ''Dockerfile'' ImageModule_new))"
  using build_one_layer_per_instruction
    [of "\<lambda>index. 0" "[]" "\<lparr>command = ''VOLUME'', args = ''/data'', original = ''VOLUME /data''\<rparr>" 3
        "\<lparr>readFile = (\<lambda>path. Inr ''VOLUME /data''), created = ''2026-01-01T00:00:00.000Z'',
          arch = ''x64'', platform = ''linux'', size_draw = (\<lambda>index. 0), now = 7\<rparr>"
        "''Dockerfile''" "''VOLUME /data''" "''app''" ImageModule_new]
  by simp

text \<open>
  Claim C7. Processing an instruction cannot throw (\<open>buildLayer\<close> has a default branch and
  no failing operation), so a build fails exactly when the build file cannot be read. Then
  the call returns, rather than throws, the result \<^verbatim>\<open>rust.result(null, error.message)\<close>,
  which is tagged as a failure for every non-empty message (the errors of \<^verbatim>\<open>fs.readFile\<close>
  carry one), and the module is left as it was: no image is registered. More generally a
  build that returns a failure result leaves the module unchanged.
\<close>

theorem buildImage_failure_registers_nothing:
  "(readFile env dockerfile = Inl err \<longrightarrow>
      buildImage env name dockerfile m = (rust_result JNull (Some (message err)), m))
   \<and> (readFile env dockerfile = Inl err \<and> message err \<noteq> [] \<longrightarrow>
      isErr (fst (buildImage env name dockerfile m))
      \<and> \<not> isOk (fst (buildImage env name dockerfile m))
      \<and> rerror (fst (buildImage env name dockerfile m)) = Some (message err)
      \<and> images (snd (buildImage env name dockerfile m)) = images m)
   \<and> (isErr (fst (buildImage env name dockerfile m)) \<longrightarrow>
      snd (buildImage env name dockerfile m) = m \<and> (\<exists>err. readFile env dockerfile = Inl err))"
proof (intro conjI impI)
  assume "readFile env dockerfile = Inl err"
  then show "buildImage env name dockerfile m = (rust_result JNull (Some (message err)), m)"
    by (rule buildImage_read_failure)
next
  assume a: "readFile env dockerfile = Inl err \<and> message err \<noteq> []"
  then have b: "buildImage env name dockerfile m = (rust_result JNull (Some (message err)), m)"
    by (simp add: buildImage_read_failure)
  from a show "isErr (fst (buildImage env name dockerfile m))"
    by (simp add: b rust_result_def err_truthy_def)
  from a show "\<not> isOk (fst (buildImage env name dockerfile m))"
    by (simp add: b rust_result_def err_truthy_def)
  show "rerror (fst (buildImage env name dockerfile m)) = Some (message err)"
    by (simp add: b rust_result_def)
  show "images (snd (buildImage env name dockerfile m)) = images m"
    by (simp add: b)
next
  assume e: "isErr (fst (buildImage env name dockerfile m))"
  have r: "snd (buildImage env name dockerfile m) = m \<and> (\<exists>err. readFile env dockerfile = Inl err)"
  proof (cases "readFile env dockerfile")
    case (Inl err)
    then show ?thesis by (simp add: buildImage_read_failure)
  next
    case (Inr content)
    from buildImage_read_success [OF Inr, of name m] e show ?thesis by blast
  qed
  from r show "snd (buildImage env name dockerfile m) = m" by blast
  from r show "\<exists>err. readFile env dockerfile = Inl err" by blast
qed

theorem buildImage_failure_registers_nothing_witness:
  "buildImage
     \<lparr>readFile = (\<lambda>path. Inl (Error ''ENOENT: no such file or directory'')),
       created = ''2026-01-01T00:00:00.000Z'', arch = ''x64'', platform = ''linux'',
       size_draw = (\<lambda>index. 0), now = 7\<rparr>
     ''app'' ''Dockerfile'' ImageModule_new
   = (\<lparr>isOk = False, isErr = True, rvalue = JNull,
        rerror = Some ''ENOENT: no such file or directory''\<rparr>, ImageModule_new)"
  using buildImage_failure_registers_nothing
    [of "\<lparr>readFile = (\<lambda>path. Inl (Error ''ENOENT: no such file or directory'')),
           created = ''2026-01-01T00:00:00.000Z'', arch = ''x64'', platform = ''linux'',
           size_draw = (\<lambda>index. 0), now = 7\<rparr>"
        "''Dockerfile''" "Error ''ENOENT: no such file or directory''" "''app''" ImageModule_new]
  by (simp add: rust_result_def err_truthy_def)

text \<open>
  Claim C5, as the code has it. The identifier is the SHA-256 digest of
  \<^verbatim>\<open>name:JSON(layers):timestamp\<close>, a function of the name, the layer list and the
  timestamp alone. Two different timestamps always give two different digest inputs,
  whatever the names and the layers. The layer list is a function of the instructions and
  of the sizes drawn for the \<^verbatim>\<open>RUN\<close>, \<^verbatim>\<open>COPY\<close> and \<^verbatim>\<open>ADD\<close> instructions: two builds
  of the same instructions under the same name and timestamp get the same identifier when
  these draws agree, in particular when no instruction draws a size.
\<close>

theorem image_id_of_name_layers_timestamp:
  "generateImageId name ls t = sha256_hex (name @ '':'' @ json (JArr ls) @ '':'' @ show_int t)
   \<and> (t1 \<noteq> t2 \<longrightarrow> image_id_content name1 ls1 t1 \<noteq> image_id_content name2 ls2 t2)
   \<and> ((\<forall>j < length instrs. draws_size (instrs ! j) \<longrightarrow> d1 j = d2 j) \<longrightarrow>
        generateImageId name (build_layers d1 instrs 0 []) t
          = generateImageId name (build_layers d2 instrs 0 []) t)
   \<and> (readFile env1 f = readFile env2 f \<and> now env1 = now env2 \<and> size_draw env1 = size_draw env2 \<longrightarrow>
        fst (buildImage env1 name f m1) = fst (buildImage env2 name f m2))"
proof (intro conjI impI)
  show "generateImageId name ls t = sha256_hex (name @ '':'' @ json (JArr ls) @ '':'' @ show_int t)"
    by (simp add: generateImageId_def image_id_content_def)
next
  assume "t1 \<noteq> t2"
  then show "image_id_content name1 ls1 t1 \<noteq> image_id_content name2 ls2 t2"
    using image_id_content_timestamp by blast
next
  assume "\<forall>j < length instrs. draws_size (instrs ! j) \<longrightarrow> d1 j = d2 j"
  then have "build_layers d1 instrs 0 [] = build_layers d2 instrs 0 []"
    using build_layers_draws [of instrs d1 0 d2] by simp
  then show "generateImageId name (build_layers d1 instrs 0 []) t
          = generateImageId name (build_layers d2 instrs 0 []) t"
    by simp
next
  assume "readFile env1 f = readFile env2 f \<and> now env1 = now env2 \<and> size_draw env1 = size_draw env2"
  then show "fst (buildImage env1 name f m1) = fst (buildImage env2 name f m2)"
    by (simp add: buildImage_result_depends)
qed

theorem image_id_of_name_layers_timestamp_witness:
  "image_id_content ''app'' [] 1 \<noteq> image_id_content ''app'' [] 2
   \<and> generateImageId ''app''
        (build_layers (\<lambda>index. 0) [\<lparr>command = ''FROM'', args = ''alpine'', original = ''FROM alpine''\<rparr>] 0 []) 7
      = generateImageId ''app''
        (build_layers (\<lambda>index. 5) [\<lparr>command = ''FROM'', args = ''alpine'', original = ''FROM alpine''\<rparr>] 0 []) 7"
proof -
  have d: "\<forall>j < length [\<lparr>command = ''FROM'', args = ''alpine'', original = ''FROM alpine''\<rparr>].
      draws_size ([\<lparr>command = ''FROM'', args = ''alpine'', original = ''FROM alpine''\<rparr>] ! j) \<longrightarrow> (0::int) = 5"
    by (simp add: draws_size_def)
  have n: "(1::int) \<noteq> 2" by simp
  show ?thesis
    using d n image_id_of_name_layers_timestamp
      [where ?t1.0 = 1 and ?t2.0 = 2 and ?name1.0 = "''app''" and ?name2.0 = "''app''"
         and ?ls1.0 = "[]" and ?ls2.0 = "[]" and name = "''app''" and t = 7 and ls = "[]"
         and instrs = "[\<lparr>command = ''FROM'', args = ''alpine'', original = ''FROM alpine''\<rparr>]"
         and ?d1.0 = "\<lambda>index. 0" and ?d2.0 = "\<lambda>index. 5"]
    by blast
qed

text \<open>
  Two identifiers computed in full: the same name and layers at the timestamps 1 and 2.
\<close>

lemma image_ids_at_two_timestamps:
  "generateImageId ''app'' [] 1 = ''889cc0d2447625bbca775b12e387c5318a3033508f13cca78386d92fed921bc2''"
  "generateImageId ''app'' [] 2 = ''a8cbef185b3ca3fd826dba5adb4ea149ef334a3eb6bec64b846275502466d043''"
  by code_simp+

lemma replay_image_ids:
  "generateImageId ''app'' (build_layers (\<lambda>index. 0) (parseDockerfile ''RUN make'') 0 []) 7
     = ''d235a1a621984a61fba30badfaf5f56ec2dc826e81a8d1ce217fdfb6d2dc93a2''"
  "generateImageId ''app'' (build_layers (\<lambda>index. 25) (parseDockerfile ''RUN make'') 0 []) 7
     = ''3657a6e2445b0f851cc29bb088b990201e001fc6a846a411f577b04db2c4abd2''"
  by code_simp+

text \<open>
  The claim as the specification words it: the same build replayed at a fixed timestamp
  yields the same identifier. Two builds of the build file \<^verbatim>\<open>RUN make\<close> under the name
  \<open>app\<close>, both at timestamp 7, get different identifiers when the sizes drawn for the
  \<open>run\<close> layer differ: 0 and 25 bytes, the values of
  \<^verbatim>\<open>Math.random() * 50 * 1024 * 1024\<close> for the random numbers 0 and \<open>2\<^sup>-\<^sup>2\<^sup>1\<close>.
\<close>

theorem image_id_differs_between_replays:
  "map (\<lambda>kv. image_id (snd kv)) (images (snd (buildImage (replay_env 0) ''app'' ''Dockerfile'' ImageModule_new)))
     = [''d235a1a621984a61fba30badfaf5f56ec2dc826e81a8d1ce217fdfb6d2dc93a2'']
   \<and> map (\<lambda>kv. image_id (snd kv)) (images (snd (buildImage (replay_env 25) ''app'' ''Dockerfile'' ImageModule_new)))
     = [''3657a6e2445b0f851cc29bb088b990201e001fc6a846a411f577b04db2c4abd2'']
   \<and> now (replay_env 0) = now (replay_env 25)
   \<and> readFile (replay_env 0) ''Dockerfile'' = readFile (replay_env 25) ''Dockerfile''"
  by (simp add: buildImage_def replay_env_def ImageModule_new_def borrow_def own_def Let_def
      replay_image_ids)

section \<open>The runtime module: properties\<close>

lemma map_set_twice: "map_set k v (map_set k w kvs) = map_set k v kvs"
  by (induction kvs) auto

lemma mount_volume_message: "mount_volume v = Inl e \<Longrightarrow> message e \<noteq> []"
  by (cases v) (auto simp: mount_volume_def cannot_read_def)

lemma mount_volumes_message: "mount_volumes vs = Inl e \<Longrightarrow> message e \<noteq> []"
proof (induction vs)
  case Nil
  then show ?case by simp
next
  case (Cons v vs)
  then show ?case
    by (auto split: sum.splits dest: mount_volume_message)
qed

lemma setupContainerVolumes_message:
  "setupContainerVolumes cid options = Inl e \<Longrightarrow> message e \<noteq> []"
  by (cases options)
     (auto simp: setupContainerVolumes_def cannot_read_def split: sum.splits jsval.splits
           dest: mount_volumes_message)

lemma default_object_ports:
  "options \<noteq> JNull \<Longrightarrow> get_prop (default_object options) ''ports'' = Inr (js_prop (default_object options) ''ports'')"
  by (cases options) (simp_all add: default_object_def js_prop_def)

lemma default_object_null:
  "get_prop (default_object JNull) ''ports'' = Inl (cannot_read ''null'' ''ports'')"
  by (simp add: default_object_def)

lemma startup_run:
  "get_prop options ''ports'' = Inr ports \<Longrightarrow>
     \<exists>network process.
       run_tasks (startupTasks env (generated_id env) options) 0 s
         = ([(0, Inr network), (1, setupContainerVolumes (generated_id env) options), (2, Inr process)],
            after_startup env options s)"
  by (simp add: startupTasks_def setupContainerNetwork_def startContainerProcess_def
      after_startup_def Let_def split: prod.split)

lemma after_startup_fields:
  "get_prop options ''ports'' = Inr ports \<Longrightarrow>
     rt_containers (fst (after_startup env options (m, c))) = rt_containers m
     \<and> rt_goEssence (fst (after_startup env options (m, c))) = rt_goEssence m
     \<and> c_status (snd (after_startup env options (m, c))) = c_status c
     \<and> c_error (snd (after_startup env options (m, c))) = c_error c"
  by (simp add: after_startup_def setupContainerNetwork_def startContainerProcess_def Let_def)

lemma startup_concurrent_fail:
  assumes "get_prop options ''ports'' = Inr ports"
    and "setupContainerVolumes (generated_id env) options = Inl e"
  shows "concurrent_tasks (startupTasks env (generated_id env) options) s
           = (Inl e, after_startup env options s)"
proof -
  from startup_run [OF assms(1), of env s] obtain network process where
    "run_tasks (startupTasks env (generated_id env) options) 0 s
       = ([(0, Inr network), (1, setupContainerVolumes (generated_id env) options), (2, Inr process)],
          after_startup env options s)" by blast
  then show ?thesis
    by (simp add: concurrent_tasks_def assms(2) concurrent_def promise_all_def goroutine_def)
qed

lemma startup_concurrent_ok:
  assumes "get_prop options ''ports'' = Inr ports"
    and "setupContainerVolumes (generated_id env) options = Inr v"
  shows "\<exists>network process.
           concurrent_tasks (startupTasks env (generated_id env) options) s
             = (Inr [network, v, process], after_startup env options s)"
proof -
  from startup_run [OF assms(1), of env s] obtain network process where
    "run_tasks (startupTasks env (generated_id env) options) 0 s
       = ([(0, Inr network), (1, setupContainerVolumes (generated_id env) options), (2, Inr process)],
          after_startup env options s)" by blast
  then show ?thesis
    by (simp add: concurrent_tasks_def assms(2) concurrent_def promise_all_def goroutine_def)
qed

text \<open>The four ways a call of \<open>runContainer\<close> with options other than \<^verbatim>\<open>null\<close> can go.\<close>

lemma run_null:
  "runContainer env imageName cmd JNull m = (Inl (cannot_read ''null'' ''ports''), None, m)"
  by (simp add: runContainer_def default_object_null Let_def)

lemma run_no_essence:
  assumes "options \<noteq> JNull" and "rt_goEssence m = None"
  shows "runContainer env imageName cmd options m
     = (Inr (rust_result JNull (Some (message (cannot_read ''undefined'' ''concurrent'')))),
        Some (run_failed (cannot_read ''undefined'' ''concurrent'')
                (new_container env imageName cmd (default_object options))
                ((own_scoped (new_container env imageName cmd (default_object options)))\<lparr>borrowed := True\<rparr>)),
        m)"
  using assms
  by (simp add: runContainer_def default_object_ports Let_def borrow_def own_scoped_def own_def)

lemma run_setup_failed:
  assumes "options \<noteq> JNull" and "rt_goEssence m = Some go"
    and "setupContainerVolumes (generated_id env) (default_object options) = Inl e"
  shows "runContainer env imageName cmd options m
     = (Inr (rust_result JNull (Some (message e))),
        Some (run_failed e
                (snd (after_startup env (default_object options)
                        (m, new_container env imageName cmd (default_object options))))
                ((own_scoped (new_container env imageName cmd (default_object options)))\<lparr>borrowed := True\<rparr>)),
        fst (after_startup env (default_object options)
               (m, new_container env imageName cmd (default_object options))))"
  using assms startup_concurrent_fail [OF default_object_ports [OF assms(1)] assms(3)]
  by (simp add: runContainer_def default_object_ports Let_def borrow_def own_scoped_def own_def
      case_prod_beta)

lemma run_started:
  assumes "options \<noteq> JNull" and "rt_goEssence m = Some go"
    and "setupContainerVolumes (generated_id env) (default_object options) = Inr v"
    and "\<not> truthy (js_prop (default_object options) ''interactive'') \<or> attach_error env = None"
  shows "\<exists>r. runContainer env imageName cmd options m
     = (Inr (ok_result r),
        Some (started_handle env imageName cmd options m),
        (fst (after_startup env (default_object options)
               (m, new_container env imageName cmd (default_object options))))
          \<lparr>rt_containers := map_set (generated_id env) (started_handle env imageName cmd options m)
                               (rt_containers m)\<rparr>)"
proof -
  from startup_concurrent_ok [OF default_object_ports [OF assms(1)] assms(3)]
  obtain network process where
    c: "concurrent_tasks (startupTasks env (generated_id env) (default_object options))
           (m, new_container env imageName cmd (default_object options))
        = (Inr [network, v, process],
           after_startup env (default_object options)
             (m, new_container env imageName cmd (default_object options)))"
    by blast
  have f: "rt_containers (fst (after_startup env (default_object options)
               (m, new_container env imageName cmd (default_object options)))) = rt_containers m"
    using after_startup_fields [OF default_object_ports [OF assms(1)]] by blast
  show ?thesis
    using assms(1,2,4)
    by (auto simp: runContainer_def default_object_ports Let_def borrow_def own_scoped_def own_def
        c f started_handle_def case_prod_beta)
qed

lemma run_attach_failed:
  assumes "options \<noteq> JNull" and "rt_goEssence m = Some go"
    and "setupContainerVolumes (generated_id env) (default_object options) = Inr v"
    and "truthy (js_prop (default_object options) ''interactive'')" and "attach_error env = Some err"
  shows "runContainer env imageName cmd options m
     = (Inr (rust_result JNull (Some (message err))),
        Some (run_failed err (resource (started_handle env imageName cmd options m))
                (started_handle env imageName cmd options m)),
        (fst (after_startup env (default_object options)
               (m, new_container env imageName cmd (default_object options))))
          \<lparr>rt_containers := map_set (generated_id env)
                               (run_failed err (resource (started_handle env imageName cmd options m))
                                  (started_handle env imageName cmd options m))
                               (rt_containers m)\<rparr>)"
proof -
  from startup_concurrent_ok [OF default_object_ports [OF assms(1)] assms(3)]
  obtain network process where
    c: "concurrent_tasks (startupTasks env (generated_id env) (default_object options))
           (m, new_container env imageName cmd (default_object options))
        = (Inr [network, v, process],
           after_startup env (default_object options)
             (m, new_container env imageName cmd (default_object options)))"
    by blast
  have f: "rt_containers (fst (after_startup env (default_object options)
               (m, new_container env imageName cmd (default_object options)))) = rt_containers m"
    using after_startup_fields [OF default_object_ports [OF assms(1)]] by blast
  show ?thesis
    using assms(1,2,4,5)
    by (simp add: runContainer_def default_object_ports Let_def borrow_def own_scoped_def own_def
        c f started_handle_def run_failed_def map_set_twice case_prod_beta)
qed

lemma borrow_held:
  "borrowed h \<Longrightarrow> borrow h = Inl (Error ''Cannot borrow: resource already borrowed or dropped'')"
  by (simp add: borrow_def)

lemma borrow_Inr: "borrow h = Inr (c, h1) \<Longrightarrow> \<not> borrowed h \<and> \<not> dropped h \<and> h1 = h\<lparr>borrowed := True\<rparr>"
  by (auto simp: borrow_def split: if_splits)

lemma borrow_Inl: "borrow h = Inl e \<Longrightarrow> e = Error ''Cannot borrow: resource already borrowed or dropped''"
  by (auto simp: borrow_def split: if_splits)

lemma borrow_all_held:
  "map_of cs k = Some h \<Longrightarrow> borrowed h \<Longrightarrow> \<not> dropped h \<Longrightarrow>
     fst (borrow_all cs) = Inl (Error ''Cannot borrow: resource already borrowed or dropped'')
     \<and> (\<exists>h'. map_of (snd (borrow_all cs)) k = Some h' \<and> borrowed h' \<and> \<not> dropped h')"
proof (induction cs)
  case Nil
  then show ?case by simp
next
  case (Cons kh rest)
  show ?case
  proof (cases "borrow (snd kh)")
    case (Inl e)
    with Cons.prems borrow_Inl [OF Inl] show ?thesis by simp
  next
    case (Inr p)
    obtain c h1 where p: "p = (c, h1)" by (cases p)
    from borrow_Inr [OF Inr [unfolded p]] have free: "\<not> borrowed (snd kh)" and h1: "h1 = (snd kh)\<lparr>borrowed := True\<rparr>"
      by simp_all
    from free Cons.prems have ne: "fst kh \<noteq> k" by (cases kh) auto
    with Cons.prems have "map_of rest k = Some h" by (cases kh) auto
    from Cons.IH [OF this Cons.prems(2,3)]
    have ih: "fst (borrow_all rest) = Inl (Error ''Cannot borrow: resource already borrowed or dropped'')"
      and ih2: "\<exists>h'. map_of (snd (borrow_all rest)) k = Some h' \<and> borrowed h' \<and> \<not> dropped h'"
      by simp_all
    from ih ih2 ne Inr p show ?thesis
      by (cases "borrow_all rest") auto
  qed
qed

lemma held_listContainers:
  assumes "held k m"
  shows "fst (listContainers showAll m) = Inl (Error ''Cannot borrow: resource already borrowed or dropped'')"
    and "held k (snd (listContainers showAll m))"
proof -
  from assms obtain h where h: "map_of (rt_containers m) k = Some h" "borrowed h" "\<not> dropped h"
    by (auto simp: held_def split: option.splits)
  from borrow_all_held [OF h]
  have a: "fst (borrow_all (rt_containers m)) = Inl (Error ''Cannot borrow: resource already borrowed or dropped'')"
    and b: "\<exists>h'. map_of (snd (borrow_all (rt_containers m))) k = Some h' \<and> borrowed h' \<and> \<not> dropped h'"
    by simp_all
  from a show "fst (listContainers showAll m) = Inl (Error ''Cannot borrow: resource already borrowed or dropped'')"
    by (cases "borrow_all (rt_containers m)") (simp add: listContainers_def Let_def)
  from a b show "held k (snd (listContainers showAll m))"
    by (cases "borrow_all (rt_containers m)") (auto simp: listContainers_def Let_def held_def)
qed

lemma held_getContainerLogs:
  assumes "held k m"
  shows "fst (getContainerLogs (JStr k) m) = Inl (Error ''Cannot borrow: resource already borrowed or dropped'')"
    and "held k (snd (getContainerLogs key m))"
proof -
  from assms obtain h where h: "map_of (rt_containers m) k = Some h" "borrowed h" "\<not> dropped h"
    by (auto simp: held_def split: option.splits)
  from h show "fst (getContainerLogs (JStr k) m) = Inl (Error ''Cannot borrow: resource already borrowed or dropped'')"
    by (simp add: getContainerLogs_def borrow_held)
  show "held k (snd (getContainerLogs key m))"
  proof (cases key)
    case (JStr k')
    show ?thesis
    proof (cases "map_of (rt_containers m) k'")
      case None
      with JStr assms show ?thesis by (simp add: getContainerLogs_def)
    next
      case (Some h')
      show ?thesis
      proof (cases "borrow h'")
        case (Inl e)
        with JStr Some assms show ?thesis by (simp add: getContainerLogs_def)
      next
        case (Inr p)
        obtain c h1 where p: "p = (c, h1)" by (cases p)
        from borrow_Inr [OF Inr [unfolded p]] have "\<not> borrowed h'" by simp
        with h Some have "k' \<noteq> k" by auto
        with JStr Some Inr p h show ?thesis
          by (simp add: getContainerLogs_def held_def map_of_map_set)
      qed
    qed
  qed (use assms in \<open>simp_all add: getContainerLogs_def\<close>)
qed

lemma started_handle_flags:
  "borrowed (started_handle env imageName cmd options m) \<and> \<not> dropped (started_handle env imageName cmd options m)
   \<and> c_status (resource (started_handle env imageName cmd options m)) = ''running''"
  by (simp add: started_handle_def own_scoped_def own_def)

lemma run_failed_flags:
  "borrowed (run_failed e c h) = borrowed h \<and> dropped (run_failed e c h) = dropped h
   \<and> c_status (resource (run_failed e c h)) = ''failed''
   \<and> c_error (resource (run_failed e c h)) = Some (message e)"
  by (simp add: run_failed_def)

lemma held_map_set:
  "held k m \<Longrightarrow> borrowed h \<Longrightarrow> \<not> dropped h \<Longrightarrow> rt_containers m' = map_set k' h (rt_containers m) \<Longrightarrow>
     held k m'"
  by (auto simp: held_def map_of_map_set split: option.splits)

lemma held_same: "held k m \<Longrightarrow> rt_containers m' = rt_containers m \<Longrightarrow> held k m'"
  by (simp add: held_def)

lemma runContainer_containers:
  "rt_containers (snd (snd (runContainer env imageName cmd options m))) = rt_containers m
   \<or> (\<exists>h. borrowed h \<and> \<not> dropped h
        \<and> rt_containers (snd (snd (runContainer env imageName cmd options m)))
             = map_set (generated_id env) h (rt_containers m))"
proof (cases "options = JNull")
  case True
  then show ?thesis by (simp add: run_null)
next
  case nn: False
  note f = after_startup_fields [OF default_object_ports [OF nn]]
  show ?thesis
  proof (cases "rt_goEssence m")
    case None
    from run_no_essence [OF nn None] show ?thesis by simp
  next
    case (Some go)
    show ?thesis
    proof (cases "setupContainerVolumes (generated_id env) (default_object options)")
      case (Inl e)
      from run_setup_failed [OF nn Some Inl] f show ?thesis by simp
    next
      case (Inr v)
      show ?thesis
      proof (cases "\<not> truthy (js_prop (default_object options) ''interactive'') \<or> attach_error env = None")
        case True
        from run_started [OF nn Some Inr True, of imageName cmd] started_handle_flags [of env imageName cmd options m]
        show ?thesis by auto
      next
        case False
        then obtain err where "truthy (js_prop (default_object options) ''interactive'')" "attach_error env = Some err"
          by auto
        from run_attach_failed [OF nn Some Inr this, of imageName cmd]
          started_handle_flags [of env imageName cmd options m]
          run_failed_flags [of err "resource (started_handle env imageName cmd options m)"
                              "started_handle env imageName cmd options m"]
        show ?thesis by auto
      qed
    qed
  qed
qed

lemma held_runContainer:
  "held k m \<Longrightarrow> held k (snd (snd (runContainer env imageName cmd options m)))"
  using runContainer_containers [of env imageName cmd options m]
  by (auto intro: held_same held_map_set)

lemma cannot_read_message: "message (cannot_read v p) \<noteq> []"
  by (simp add: cannot_read_def)

lemma rust_result_failure: "msg \<noteq> [] \<Longrightarrow> isErr (rust_result v (Some msg)) \<and> \<not> isOk (rust_result v (Some msg))"
  by (simp add: rust_result_def err_truthy_def)

lemma runContainer_success_held:
  assumes "fst (runContainer env imageName cmd options m) = Inr r" and "isOk r"
  shows "held (generated_id env) (snd (snd (runContainer env imageName cmd options m)))"
proof (cases "options = JNull")
  case True
  with assms show ?thesis by (simp add: run_null)
next
  case nn: False
  show ?thesis
  proof (cases "rt_goEssence m")
    case None
    from run_no_essence [OF nn None, of env imageName cmd] assms
      rust_result_failure [OF cannot_read_message, of JNull "''undefined''" "''concurrent''"]
    show ?thesis by auto
  next
    case (Some go)
    show ?thesis
    proof (cases "setupContainerVolumes (generated_id env) (default_object options)")
      case (Inl e)
      from run_setup_failed [OF nn Some Inl, of imageName cmd] assms
        rust_result_failure [OF setupContainerVolumes_message [OF Inl], of JNull]
      show ?thesis by auto
    next
      case (Inr v)
      show ?thesis
      proof (cases "\<not> truthy (js_prop (default_object options) ''interactive'') \<or> attach_error env = None")
        case True
        from run_started [OF nn Some Inr True, of imageName cmd] started_handle_flags [of env imageName cmd options m]
        show ?thesis by (auto simp: held_def map_of_map_set)
      next
        case False
        then obtain err where "truthy (js_prop (default_object options) ''interactive'')" "attach_error env = Some err"
          by auto
        from run_attach_failed [OF nn Some Inr this, of imageName cmd]
          started_handle_flags [of env imageName cmd options m]
          run_failed_flags [of err "resource (started_handle env imageName cmd options m)"
                              "started_handle env imageName cmd options m"]
        show ?thesis by (auto simp: held_def map_of_map_set)
      qed
    qed
  qed
qed

lemma map_of_update_handles:
  "map_of (map (\<lambda>kh. if fst kh = c then (fst kh, f (snd kh)) else kh) cs) k
     = map_option (\<lambda>h. if k = c then f h else h) (map_of cs k)"
  by (induction cs) auto

lemma held_push_log: "held k m \<Longrightarrow> held k (push_log c entry m)"
proof -
  assume h: "held k m"
  have "map_of (rt_containers (push_log c entry m)) k
          = map_option (\<lambda>h. if k = c then h\<lparr>resource := (resource h)\<lparr>c_logs := c_logs (resource h) @ [entry]\<rparr>\<rparr> else h)
              (map_of (rt_containers m) k)"
    unfolding push_log_def
    using map_of_update_handles
      [of c "\<lambda>h. h\<lparr>resource := (resource h)\<lparr>c_logs := c_logs (resource h) @ [entry]\<rparr>\<rparr>" "rt_containers m" k]
    by simp
  with h show ?thesis
    by (auto simp: held_def split: option.splits)
qed

lemma held_handleOperation:
  assumes h: "held k m"
  shows "held k (snd (runtime_handleOperation env operation data m))"
proof -
  have run: "\<And>img c opts. held k (snd (snd (runContainer env img c opts m)))"
    using h by (rule held_runContainer)
  have lst: "\<And>a. held k (snd (listContainers a m))"
    using h by (rule held_listContainers(2))
  have logs: "\<And>key. held k (snd (getContainerLogs key m))"
    using h by (rule held_getContainerLogs(2))
  show ?thesis
    unfolding runtime_handleOperation_def
    by (simp add: h run lst logs case_prod_beta split: sum.split)
qed

lemma held_event: "held k m \<Longrightarrow> held k (apply_event m ev)"
  by (cases ev) (simp_all add: held_handleOperation held_push_log)

lemma held_events: "held k m \<Longrightarrow> held k (runtime_events m events)"
  unfolding runtime_events_def
  by (induction events arbitrary: m) (simp_all add: held_event)

lemma listContainers_depends:
  "rt_containers m' = rt_containers m \<Longrightarrow> fst (listContainers showAll m') = fst (listContainers showAll m)"
  by (simp add: listContainers_def Let_def split: prod.split sum.split)

text \<open>
  What a call of \<open>runContainer\<close> with options other than \<^verbatim>\<open>null\<close> leaves behind, in
  every module. The call returns a result and leaves a borrowed record whose status is
  \<open>running\<close> or \<open>failed\<close>. The status is \<open>running\<close> only if the three startup tasks have
  all returned, and then the record is stored under its identifier. When the startup fails,
  because a task throws or because the module has no \<^verbatim>\<open>goEssence\<close>, the \<^verbatim>\<open>catch\<close>
  block writes \<open>failed\<close> and the message into the record and returns a failure result,
  but no statement of that path stores the record: the table of containers is as before
  the call.
\<close>

lemma runContainer_outcomes:
  assumes "options \<noteq> JNull"
  shows "\<exists>r h. fst (runContainer env imageName cmd options m) = Inr r
      \<and> fst (snd (runContainer env imageName cmd options m)) = Some h
      \<and> borrowed h \<and> \<not> dropped h
      \<and> (c_status (resource h) = ''running'' \<or> c_status (resource h) = ''failed'')
      \<and> (c_status (resource h) = ''running'' \<longrightarrow>
            rt_goEssence m = Some Go
            \<and> (\<exists>network volumes process.
                  fst (run_tasks (startupTasks env (generated_id env) (default_object options)) 0
                         (m, new_container env imageName cmd (default_object options)))
                    = [(0, Inr network), (1, Inr volumes), (2, Inr process)])
            \<and> isOk r
            \<and> map_of (rt_containers (snd (snd (runContainer env imageName cmd options m)))) (generated_id env) = Some h)
      \<and> (rt_goEssence m = Some Go
            \<and> (\<exists>v. setupContainerVolumes (generated_id env) (default_object options) = Inr v)
            \<and> (\<not> truthy (js_prop (default_object options) ''interactive'') \<or> attach_error env = None) \<longrightarrow>
            c_status (resource h) = ''running'')
      \<and> (rt_goEssence m = None
            \<or> (\<exists>t e. (t, Inl e) \<in> set (fst (run_tasks (startupTasks env (generated_id env) (default_object options)) 0
                         (m, new_container env imageName cmd (default_object options))))) \<longrightarrow>
            c_status (resource h) = ''failed''
            \<and> (\<exists>msg. msg \<noteq> [] \<and> c_error (resource h) = Some msg \<and> r = rust_result JNull (Some msg))
            \<and> isErr r \<and> \<not> isOk r
            \<and> rt_containers (snd (snd (runContainer env imageName cmd options m))) = rt_containers m
            \<and> fst (listContainers showAll (snd (snd (runContainer env imageName cmd options m))))
                 = fst (listContainers showAll m))"
proof -
  let ?opts = "default_object options"
  let ?c0 = "new_container env imageName cmd ?opts"
  let ?h0 = "(own_scoped ?c0)\<lparr>borrowed := True\<rparr>"
  let ?R = "runContainer env imageName cmd options m"
  note ports = default_object_ports [OF assms]
  note f = after_startup_fields [OF ports]
  from startup_run [OF ports, of env "(m, ?c0)"] obtain network process where
    tasks: "run_tasks (startupTasks env (generated_id env) ?opts) 0 (m, ?c0)
         = ([(0, Inr network), (1, setupContainerVolumes (generated_id env) ?opts), (2, Inr process)],
            after_startup env ?opts (m, ?c0))" by blast
  have h0: "borrowed ?h0 \<and> \<not> dropped ?h0" by (simp add: own_scoped_def own_def)
  show ?thesis
  proof (cases "rt_goEssence m")
    case None
    let ?e = "cannot_read ''undefined'' ''concurrent''"
    have R: "?R = (Inr (rust_result JNull (Some (message ?e))), Some (run_failed ?e ?c0 ?h0), m)"
      by (rule run_no_essence [OF assms None])
    show ?thesis
      using None h0 run_failed_flags [of ?e ?c0 ?h0] cannot_read_message [of "''undefined''" "''concurrent''"]
        rust_result_failure [OF cannot_read_message, of JNull "''undefined''" "''concurrent''"]
      by (simp add: R)
  next
    case (Some go)
    then have go: "rt_goEssence m = Some Go" by (cases go) simp
    show ?thesis
    proof (cases "setupContainerVolumes (generated_id env) ?opts")
      case (Inl e)
      let ?c1 = "snd (after_startup env ?opts (m, ?c0))"
      have R: "?R = (Inr (rust_result JNull (Some (message e))), Some (run_failed e ?c1 ?h0),
                     fst (after_startup env ?opts (m, ?c0)))"
        by (rule run_setup_failed [OF assms Some Inl])
      have same: "rt_containers (fst (after_startup env ?opts (m, ?c0))) = rt_containers m"
        using f by blast
      show ?thesis
        using go h0 run_failed_flags [of e ?c1 ?h0] setupContainerVolumes_message [OF Inl]
          rust_result_failure [OF setupContainerVolumes_message [OF Inl], of JNull]
          listContainers_depends [OF same]
        by (simp add: R Inl same)
    next
      case (Inr v)
      let ?h2 = "started_handle env imageName cmd options m"
      have none_failed: "\<nexists>t e. (t, Inl e) \<in> set (fst (run_tasks (startupTasks env (generated_id env) ?opts) 0 (m, ?c0)))"
        by (simp add: tasks Inr)
      have all_ok: "\<exists>network volumes process.
                  fst (run_tasks (startupTasks env (generated_id env) ?opts) 0 (m, ?c0))
                    = [(0, Inr network), (1, Inr volumes), (2, Inr process)]"
        by (simp add: tasks Inr)
      show ?thesis
      proof (cases "\<not> truthy (js_prop ?opts ''interactive'') \<or> attach_error env = None")
        case True
        from run_started [OF assms Some Inr True, of imageName cmd] obtain r where
          R: "?R = (Inr (ok_result r), Some ?h2,
                    (fst (after_startup env ?opts (m, ?c0)))
                      \<lparr>rt_containers := map_set (generated_id env) ?h2 (rt_containers m)\<rparr>)"
          by blast
        have ok: "isOk (ok_result r)" by (simp add: ok_result_def rust_result_def err_truthy_def)
        show ?thesis
          using go none_failed all_ok ok started_handle_flags [of env imageName cmd options m]
          by (simp add: R map_of_map_set)
      next
        case False
        then obtain err where a: "truthy (js_prop ?opts ''interactive'')" "attach_error env = Some err"
          by auto
        let ?h3 = "run_failed err (resource ?h2) ?h2"
        have R: "?R = (Inr (rust_result JNull (Some (message err))), Some ?h3,
                    (fst (after_startup env ?opts (m, ?c0)))
                      \<lparr>rt_containers := map_set (generated_id env) ?h3 (rt_containers m)\<rparr>)"
          by (rule run_attach_failed [OF assms Some Inr a])
        show ?thesis
          using go none_failed a started_handle_flags [of env imageName cmd options m]
            run_failed_flags [of err "resource ?h2" ?h2]
          by (simp add: R)
      qed
    qed
  qed
qed

text \<open>
  The other failure path of the same function does keep the record: when attaching throws,
  after \<^verbatim>\<open>this.containers.set\<close>, the \<^verbatim>\<open>catch\<close> block marks the stored record
  \<open>failed\<close> and it stays in the table.
\<close>

lemma attach_failure_keeps_failed_record:
  assumes "options \<noteq> JNull" and "rt_goEssence m = Some go"
    and "setupContainerVolumes (generated_id env) (default_object options) = Inr v"
    and "truthy (js_prop (default_object options) ''interactive'')" and "attach_error env = Some err"
  shows "\<exists>h. map_of (rt_containers (snd (snd (runContainer env imageName cmd options m)))) (generated_id env) = Some h
           \<and> c_status (resource h) = ''failed'' \<and> c_error (resource h) = Some (message err)"
  using run_attach_failed [OF assms, of imageName cmd]
    run_failed_flags [of err "resource (started_handle env imageName cmd options m)"
                        "started_handle env imageName cmd options m"]
  by (simp add: map_of_map_set)

text \<open>
  Claim C2 says that a container whose setup fails ends with the status \<open>failed\<close>, the
  reason on its record and a tagged failure result for the caller, and that it remains a
  listed entity: left out by \<open>listContainers(false)\<close>, included by \<open>listContainers(true)\<close>.
  The code does the first three and misses the last. In a module as its constructor builds
  it, \<^verbatim>\<open>this.goEssence\<close> is \<^verbatim>\<open>undefined\<close>, so the run of the image \<open>alpine\<close> with
  no command and no options fails inside the \<^verbatim>\<open>try\<close> before any setup task starts: the
  caller gets the failure result, the record is \<open>failed\<close> with the message on it, and the
  table of containers stays empty, so that \<open>listContainers\<close> returns the empty list in
  both views. The failed container is listed by neither.
\<close>

theorem runContainer_failed_container_not_listed:
  "fst (runContainer example_run (JStr ''alpine'') JUndefined JUndefined RuntimeModule_new)
     = Inr \<lparr>isOk = False, isErr = True, rvalue = JNull,
            rerror = Some (''Cannot read properties of undefined (reading '' @ [CHR 0x27] @ ''concurrent''
                           @ [CHR 0x27] @ '')'')\<rparr>
   \<and> map_option (\<lambda>h. (c_status (resource h), c_error (resource h)))
        (fst (snd (runContainer example_run (JStr ''alpine'') JUndefined JUndefined RuntimeModule_new)))
      = Some (''failed'', Some (''Cannot read properties of undefined (reading '' @ [CHR 0x27] @ ''concurrent''
                                @ [CHR 0x27] @ '')''))
   \<and> rt_containers (snd (snd (runContainer example_run (JStr ''alpine'') JUndefined JUndefined RuntimeModule_new)))
      = []
   \<and> fst (listContainers (JBool True)
        (snd (snd (runContainer example_run (JStr ''alpine'') JUndefined JUndefined RuntimeModule_new))))
      = Inr \<lparr>isOk = True, isErr = False, rvalue = JArr [], rerror = None\<rparr>
   \<and> fst (listContainers (JBool False)
        (snd (snd (runContainer example_run (JStr ''alpine'') JUndefined JUndefined RuntimeModule_new))))
      = Inr \<lparr>isOk = True, isErr = False, rvalue = JArr [], rerror = None\<rparr>"
  by code_simp

text \<open>
  Claim C4. After a run that returns a success, the handle stored under the identifier of
  the container is borrowed and not dropped, and stays so through every later operation of
  the module and every log timer: nothing releases it. A borrow of it throws, so
  \<open>listContainers\<close>, in either view, and \<open>getContainerLogs\<close> for that container throw the
  error of \<open>borrow\<close>.
\<close>

theorem run_container_handle_stays_borrowed:
  assumes "fst (runContainer env imageName cmd options m) = Inr r" and "isOk r"
  shows "held (generated_id env) (runtime_events (snd (snd (runContainer env imageName cmd options m))) events)
    \<and> (\<exists>h. map_of (rt_containers (runtime_events (snd (snd (runContainer env imageName cmd options m))) events))
               (generated_id env) = Some h
          \<and> borrowed h \<and> \<not> dropped h
          \<and> borrow h = Inl (Error ''Cannot borrow: resource already borrowed or dropped''))
    \<and> fst (listContainers showAll (runtime_events (snd (snd (runContainer env imageName cmd options m))) events))
         = Inl (Error ''Cannot borrow: resource already borrowed or dropped'')
    \<and> fst (getContainerLogs (JStr (generated_id env))
              (runtime_events (snd (snd (runContainer env imageName cmd options m))) events))
         = Inl (Error ''Cannot borrow: resource already borrowed or dropped'')"
proof -
  let ?m2 = "runtime_events (snd (snd (runContainer env imageName cmd options m))) events"
  have "held (generated_id env) (snd (snd (runContainer env imageName cmd options m)))"
    by (rule runContainer_success_held [OF assms])
  then have h: "held (generated_id env) ?m2" by (rule held_events)
  then obtain hd where hd: "map_of (rt_containers ?m2) (generated_id env) = Some hd" "borrowed hd" "\<not> dropped hd"
    by (auto simp: held_def split: option.splits)
  from hd borrow_held [OF hd(2)] have
    "\<exists>h. map_of (rt_containers ?m2) (generated_id env) = Some h \<and> borrowed h \<and> \<not> dropped h
          \<and> borrow h = Inl (Error ''Cannot borrow: resource already borrowed or dropped'')"
    by blast
  with h held_listContainers(1) [OF h, of showAll] held_getContainerLogs(1) [OF h]
  show ?thesis by blast
qed

theorem run_container_handle_stays_borrowed_witness:
  "fst (listContainers (JBool True)
     (runtime_events (snd (snd (runContainer example_run (JStr ''alpine'') JUndefined JUndefined runtime_with_go)))
        [Operation example_run ''list_containers'' (JObj [(''all'', JBool False)]),
         LogTimer ''9f86d081884c7d659a2feaa0c55ad015'' (JStr ''Container initialization complete''),
         Operation example_run ''stop_container'' (JObj [(''containerId'', JStr ''9f86d081884c7d659a2feaa0c55ad015'')]),
         Operation (example_run\<lparr>generated_id := ''2c26b46b68ffc68ff99b453c1d304134''\<rparr>) ''run_container''
           (JObj [(''image'', JStr ''nginx'')])]))
     = Inl (Error ''Cannot borrow: resource already borrowed or dropped'')
   \<and> fst (getContainerLogs (JStr ''9f86d081884c7d659a2feaa0c55ad015'')
     (runtime_events (snd (snd (runContainer example_run (JStr ''alpine'') JUndefined JUndefined runtime_with_go)))
        [Operation example_run ''list_containers'' (JObj [(''all'', JBool False)]),
         LogTimer ''9f86d081884c7d659a2feaa0c55ad015'' (JStr ''Container initialization complete''),
         Operation example_run ''stop_container'' (JObj [(''containerId'', JStr ''9f86d081884c7d659a2feaa0c55ad015'')]),
         Operation (example_run\<lparr>generated_id := ''2c26b46b68ffc68ff99b453c1d304134''\<rparr>) ''run_container''
           (JObj [(''image'', JStr ''nginx'')])]))
     = Inl (Error ''Cannot borrow: resource already borrowed or dropped'')"
proof -
  have a: "fst (runContainer example_run (JStr ''alpine'') JUndefined JUndefined runtime_with_go)
     = Inr \<lparr>isOk = True, isErr = False,
            rvalue = JObj [(''containerId'', JStr ''9f86d081884c7d659a2feaa0c55ad015''),
                           (''status'', JStr ''running''), (''image'', JStr ''alpine''),
                           (''command'', JStr ''/bin/sh''), (''ports'', JArr [])],
            rerror = None\<rparr>"
    by code_simp
  have b: "isOk \<lparr>isOk = True, isErr = False,
            rvalue = JObj [(''containerId'', JStr ''9f86d081884c7d659a2feaa0c55ad015''),
                           (''status'', JStr ''running''), (''image'', JStr ''alpine''),
                           (''command'', JStr ''/bin/sh''), (''ports'', JArr [])],
            rerror = None\<rparr>"
    by simp
  have g: "generated_id example_run = ''9f86d081884c7d659a2feaa0c55ad015''"
    by (simp add: example_run_def)
  show ?thesis
    using run_container_handle_stays_borrowed [OF a b,
        of "[Operation example_run ''list_containers'' (JObj [(''all'', JBool False)]),
         LogTimer ''9f86d081884c7d659a2feaa0c55ad015'' (JStr ''Container initialization complete''),
         Operation example_run ''stop_container'' (JObj [(''containerId'', JStr ''9f86d081884c7d659a2feaa0c55ad015'')]),
         Operation (example_run\<lparr>generated_id := ''2c26b46b68ffc68ff99b453c1d304134''\<rparr>) ''run_container''
           (JObj [(''image'', JStr ''nginx'')])]" "JBool True"]
    unfolding g by blast
qed

section \<open>The engine: properties\<close>

lemma execute_no_module:
  "selectModule (e\<lparr>metrics_commands := metrics_commands e + 1\<rparr>) operation = None \<Longrightarrow>
     execute handlers startTime endTime operation data options e
       = (\<lparr>success = False, out_module = None, out_operation = operation, out_result = None,
           out_error = Some (''No module found for operation: '' @ operation),
           executionTime = endTime - startTime\<rparr>,
          e\<lparr>metrics_commands := metrics_commands e + 1, metrics_errors := metrics_errors e + 1\<rparr>)"
  by (simp add: execute_def execute_failed_def Let_def)

lemma unrouted_selects_nothing:
  "operation \<notin> fst ` set operationMap \<Longrightarrow> selectModule e operation = None"
proof -
  assume "operation \<notin> fst ` set operationMap"
  then have "map_of operationMap operation = None"
    by (simp add: map_of_eq_None_iff)
  then show ?thesis by (simp add: selectModule_def)
qed

text \<open>
  An operation that is routed to a module is counted by the module and in the metrics of
  the engine: the counters the next theorem is about do move.
\<close>

lemma execute_routed_operation_counts:
  "map (\<lambda>kmd. (fst kmd, stats_operations (mod_stats (snd kmd))))
       (eng_modules (snd (execute (\<lambda>key operation data options s. (Inr (JArr []), s)) 100 103
                            ''list_images'' (JObj []) JUndefined
                            (DockerNexusEngine_new (\<lambda>key. ()) 0))))
     = [(''isolation'', 0), (''image'', 1), (''runtime'', 0), (''network'', 0), (''storage'', 0)]
   \<and> metrics_modules (snd (execute (\<lambda>key operation data options s. (Inr (JArr []), s)) 100 103
                            ''list_images'' (JObj []) JUndefined
                            (DockerNexusEngine_new (\<lambda>key. ()) 0)))
     = Some [(''Image'', \<lparr>met_operations = 1, met_totalTime = 3, met_avgTime = 3\<rparr>)]"
  by (simp add: execute_def selectModule_def operationMap_def DockerNexusEngine_new_def
      DockerModule_new_def process_def updateStats_def default_object_def Let_def)

text \<open>
  Claim C10. For an operation name that the routing table does not list, \<open>execute\<close>
  returns a failure outcome whose error is the message of
  \<^verbatim>\<open>No module found for operation\<close>; it counts one command and one error in the metrics
  of the engine and changes nothing else: the modules, with their operation counters, and
  the per-module metrics are as before.
\<close>

theorem execute_unknown_operation:
  assumes "operation \<notin> fst ` set operationMap"
  shows "execute handlers startTime endTime operation data options e
       = (\<lparr>success = False, out_module = None, out_operation = operation, out_result = None,
           out_error = Some (''No module found for operation: '' @ operation),
           executionTime = endTime - startTime\<rparr>,
          e\<lparr>metrics_commands := metrics_commands e + 1, metrics_errors := metrics_errors e + 1\<rparr>)
    \<and> eng_modules (snd (execute handlers startTime endTime operation data options e)) = eng_modules e
    \<and> map (\<lambda>kmd. stats_operations (mod_stats (snd kmd)))
          (eng_modules (snd (execute handlers startTime endTime operation data options e)))
        = map (\<lambda>kmd. stats_operations (mod_stats (snd kmd))) (eng_modules e)
    \<and> metrics_modules (snd (execute handlers startTime endTime operation data options e)) = metrics_modules e"
proof -
  have "selectModule (e\<lparr>metrics_commands := metrics_commands e + 1\<rparr>) operation = None"
    using assms by (rule unrouted_selects_nothing)
  then have "execute handlers startTime endTime operation data options e
       = (\<lparr>success = False, out_module = None, out_operation = operation, out_result = None,
           out_error = Some (''No module found for operation: '' @ operation),
           executionTime = endTime - startTime\<rparr>,
          e\<lparr>metrics_commands := metrics_commands e + 1, metrics_errors := metrics_errors e + 1\<rparr>)"
    by (rule execute_no_module)
  then show ?thesis by simp
qed

theorem execute_unknown_operation_witness:
  "execute (\<lambda>key operation data options s. (Inr (JArr []), s)) 100 103 ''not_a_real_op'' (JObj []) JUndefined
       (DockerNexusEngine_new (\<lambda>key. ()) 0)
     = (\<lparr>success = False, out_module = None, out_operation = ''not_a_real_op'', out_result = None,
         out_error = Some ''No module found for operation: not_a_real_op'', executionTime = 3\<rparr>,
        (DockerNexusEngine_new (\<lambda>key. ()) 0)\<lparr>metrics_commands := 1, metrics_errors := 1\<rparr>)"
proof -
  have n: "''not_a_real_op'' \<notin> fst ` set operationMap"
    by (simp add: operationMap_def)
  show ?thesis
    using execute_unknown_operation [OF n,
        of "\<lambda>key operation data options s. (Inr (JArr []), s)" 100 103 "JObj []" JUndefined
           "DockerNexusEngine_new (\<lambda>key. ()) 0"]
    by (simp add: DockerNexusEngine_new_def)
qed

end
